theory Spec2Isabelle
  imports Complex_Main "HOL-Library.AList"
begin

section \<open>Numbers, vectors, quaternions, strings\<close>

text \<open>
  JavaScript numbers are modelled as reals: the development follows the arithmetic the
  code writes down, not its rounding.  A \<open>THREE.Vector3\<close> / \<open>CANNON.Vec3\<close> is a
  \<open>vec3\<close>, a quaternion of either library a \<open>quat\<close>.
\<close>

datatype vec3 = Vec3 (vx: real) (vy: real) (vz: real)

datatype quat = Quaternion (qx: real) (qy: real) (qz: real) (qw: real)

definition distanceTo :: "vec3 \<Rightarrow> vec3 \<Rightarrow> real" where
  "distanceTo a b =
     sqrt ((vx a - vx b) * (vx a - vx b) + (vy a - vy b) * (vy a - vy b)
           + (vz a - vz b) * (vz a - vz b))"

definition vec_add :: "vec3 \<Rightarrow> vec3 \<Rightarrow> vec3" where
  "vec_add a b = Vec3 (vx a + vx b) (vy a + vy b) (vz a + vz b)"

definition vec_length :: "vec3 \<Rightarrow> real" where
  "vec_length a = sqrt (vx a * vx a + vy a * vy a + vz a * vz a)"

text \<open>\<open>a || d\<close> on an optional number: \<open>undefined\<close> and \<open>0\<close> both give the default.\<close>

definition num_or :: "real option \<Rightarrow> real \<Rightarrow> real" where
  "num_or a d = (case a of None \<Rightarrow> d | Some r \<Rightarrow> if r = 0 then d else r)"

text \<open>\<open>CANNON.Quaternion.setFromAxisAngle\<close> and \<open>mult\<close>.  \<open>mult\<close> writes the product into
  its \<open>target\<close> argument, a new quaternion when none is given, and returns it; the
  receiver is left as it was.\<close>

definition setFromAxisAngle :: "vec3 \<Rightarrow> real \<Rightarrow> quat" where
  "setFromAxisAngle axis angle =
     (let s = sin (angle * 0.5)
      in Quaternion (vx axis * s) (vy axis * s) (vz axis * s) (cos (angle * 0.5)))"

definition mult :: "quat \<Rightarrow> quat \<Rightarrow> quat" where
  "mult a b =
     Quaternion (qx a * qw b + qw a * qx b + qy a * qz b - qz a * qy b)
                (qy a * qw b + qw a * qy b + qz a * qx b - qx a * qz b)
                (qz a * qw b + qw a * qz b + qx a * qy b - qy a * qx b)
                (qw a * qw b - qx a * qx b - qy a * qy b - qz a * qz b)"

definition quat_identity :: quat where
  "quat_identity = Quaternion 0 0 0 1"

text \<open>
  The orientation of a \<open>THREE.Object3D\<close>.  three.js keeps \<open>rotation\<close> (Euler angles,
  order XYZ) and \<open>quaternion\<close> as two views of one orientation: writing one rewrites the
  other.  The model records the view written last and computes the other on reading, with
  the formulas of \<open>Quaternion.setFromEuler\<close> and of \<open>Euler.setFromQuaternion\<close> (through
  \<open>Matrix4.makeRotationFromQuaternion\<close> and \<open>Euler.setFromRotationMatrix\<close>).  The reals
  have one zero: where JavaScript's \<open>atan2\<close> tells \<open>-0\<close> from \<open>0\<close> and answers \<open>-pi\<close>,
  the model answers \<open>pi\<close>.
\<close>

datatype orientation = FromEuler vec3 | FromQuaternion quat

definition atan2 :: "real \<Rightarrow> real \<Rightarrow> real" where
  "atan2 b a =
     (if a > 0 then arctan (b / a)
      else if a < 0 then (if b \<ge> 0 then arctan (b / a) + pi else arctan (b / a) - pi)
      else if b > 0 then pi / 2 else if b < 0 then - pi / 2 else 0)"

definition clamp :: "real \<Rightarrow> real \<Rightarrow> real \<Rightarrow> real" where
  "clamp v lo hi = max lo (min hi v)"

definition setFromEuler :: "vec3 \<Rightarrow> quat" where
  "setFromEuler e =
     (let c1 = cos (vx e / 2); c2 = cos (vy e / 2); c3 = cos (vz e / 2);
          s1 = sin (vx e / 2); s2 = sin (vy e / 2); s3 = sin (vz e / 2)
      in Quaternion (s1 * c2 * c3 + c1 * s2 * s3) (c1 * s2 * c3 - s1 * c2 * s3)
                    (c1 * c2 * s3 + s1 * s2 * c3) (c1 * c2 * c3 - s1 * s2 * s3))"

definition setFromQuaternion :: "quat \<Rightarrow> vec3" where
  "setFromQuaternion q =
     (let x2 = qx q + qx q; y2 = qy q + qy q; z2 = qz q + qz q;
          xx = qx q * x2; xy = qx q * y2; xz = qx q * z2;
          yy = qy q * y2; yz = qy q * z2; zz = qz q * z2;
          wx = qw q * x2; wy = qw q * y2; wz = qw q * z2;
          m11 = 1 - (yy + zz); m12 = xy - wz; m13 = xz + wy;
          m22 = 1 - (xx + zz); m23 = yz - wx;
          m32 = yz + wx; m33 = 1 - (xx + yy)
      in if \<bar>m13\<bar> < 0.9999999
         then Vec3 (atan2 (- m23) m33) (arcsin (clamp m13 (-1) 1)) (atan2 (- m12) m11)
         else Vec3 (atan2 m32 m22) (arcsin (clamp m13 (-1) 1)) 0)"

fun quaternion_of :: "orientation \<Rightarrow> quat" where
  "quaternion_of (FromEuler e) = setFromEuler e"
| "quaternion_of (FromQuaternion q) = q"

fun rotation_of :: "orientation \<Rightarrow> vec3" where
  "rotation_of (FromEuler e) = e"
| "rotation_of (FromQuaternion q) = setFromQuaternion q"

text \<open>\<open>String.prototype.toLowerCase\<close> (on the ASCII letters) and \<open>includes\<close>.\<close>

definition toLowerCase_char :: "char \<Rightarrow> char" where
  "toLowerCase_char c =
     (case map_of (zip ''ABCDEFGHIJKLMNOPQRSTUVWXYZ'' ''abcdefghijklmnopqrstuvwxyz'') c of
        Some l \<Rightarrow> l
      | None \<Rightarrow> c)"

definition toLowerCase :: "string \<Rightarrow> string" where
  "toLowerCase s = map toLowerCase_char s"

fun startsWith :: "string \<Rightarrow> string \<Rightarrow> bool" where
  "startsWith s [] = True"
| "startsWith [] (c # cs) = False"
| "startsWith (d # ds) (c # cs) = (d = c \<and> startsWith ds cs)"

fun str_includes :: "string \<Rightarrow> string \<Rightarrow> bool" where
  "str_includes [] sub = (sub = [])"
| "str_includes (c # cs) sub = (startsWith (c # cs) sub \<or> str_includes cs sub)"


section \<open>Simulator bodies and visual objects\<close>

datatype body_type = DYNAMIC | STATIC | KINEMATIC

text \<open>A buffer geometry: the position attribute as the list of its vertices (the flat
  array, three numbers a vertex), the optional index, and what \<open>ConvexGeometry\<close> (three.js)
  builds from these points: \<open>None\<close> when the construction throws, \<open>Some None\<close> for a
  hull without an index (what three.js builds), otherwise the hull's vertices and index.
  Every geometry of the model has its position attribute.\<close>

record geometry =
  positions :: "vec3 list"
  index :: "nat list option"
  convexGeo :: "(vec3 list \<times> nat list) option option"

datatype shape =
    Box vec3
  | Sphere real
  | Plane
  | Cylinder real real real nat
  | Trimesh "vec3 list" "nat list"
  | ConvexPolyhedron "vec3 list" "nat list"

record body_userData =
  ud_offset :: "vec3 option"
  ud_isPlatform :: bool
  ud_isSolidPlatform :: bool
  ud_isTrigger :: bool
  ud_platformType :: "string option"
  ud_threeObject :: "string option"

definition no_userData :: body_userData where
  "no_userData = \<lparr> ud_offset = None, ud_isPlatform = False, ud_isSolidPlatform = False,
     ud_isTrigger = False, ud_platformType = None, ud_threeObject = None \<rparr>"

text \<open>A \<open>CANNON.Body\<close>: each shape with its local offset and local orientation.\<close>

record body =
  mass :: real
  btype :: body_type
  isTrigger :: bool
  shapes :: "(shape \<times> vec3 \<times> quat) list"
  bposition :: vec3
  bquaternion :: quat
  velocity :: vec3
  angularVelocity :: vec3
  linearDamping :: real
  angularDamping :: real
  sleepSpeedLimit :: real
  sleepTimeLimit :: real
  collisionResponse :: bool
  userData :: body_userData

text \<open>The nodes below a visual object, as \<open>traverse\<close> and \<open>findMesh\<close> see them.\<close>

datatype node = Node (nname: string) (nisMesh: bool) (nisSkinnedMesh: bool)
  (ngeometry: "geometry option") (nchildren: "node list")

text \<open>
  A \<open>THREE.Object3D\<close> with the \<open>userData\<close> entries the physics layer keeps on it.
  \<open>worldScale\<close> is what \<open>getWorldScale\<close> returns and \<open>bbox_min\<close>, \<open>bbox_max\<close> are
  the corners \<open>Box3.setFromObject\<close> computes; both come from three.js.
\<close>

record three_object =
  name :: string
  otype :: string
  isMesh :: bool
  isSkinnedMesh :: bool
  isCamera :: bool
  position :: vec3
  orientation :: orientation
  worldScale :: vec3
  bbox_min :: vec3
  bbox_max :: vec3
  ogeometry :: "geometry option"
  children :: "node list"
  physicsBody :: "nat option"
  originalPosition :: "vec3 option"
  originalRotation :: "vec3 option"
  ud_velocity :: "vec3 option"

text \<open>A collision frame, as far as \<open>PhysicsWorld\<close> reads it.\<close>

record frame =
  ftype :: string
  fposition :: "vec3 option"
  frotation :: "vec3 option"
  fsize :: "vec3 option"
  fradius :: "real option"

record body_options =
  opt_type :: "string option"
  opt_mass :: "real option"
  opt_size :: "vec3 option"
  opt_radius :: "real option"
  opt_height :: "real option"
  opt_isCharacter :: bool
  opt_isStatic :: bool
  opt_offset :: "vec3 option"
  opt_frameOffset :: "vec3 option"
  opt_frameRotation :: "vec3 option"
  opt_frames :: "frame list option"
  opt_isTrigger :: bool
  opt_collisionMesh :: "geometry option"

definition no_options :: body_options where
  "no_options = \<lparr> opt_type = None, opt_mass = None, opt_size = None, opt_radius = None,
     opt_height = None, opt_isCharacter = False, opt_isStatic = False, opt_offset = None,
     opt_frameOffset = None, opt_frameRotation = None, opt_frames = None,
     opt_isTrigger = False, opt_collisionMesh = None \<rparr>"


section \<open>PhysicsWorld\<close>

text \<open>
  Visual objects and simulator bodies are mutable and shared, so both live in stores:
  \<open>objs\<close> maps a uuid to the object of the scene graph carrying it, \<open>store\<close> maps a
  reference to the body it denotes.  \<open>world\<close> is the simulator's own list of bodies
  (\<open>CANNON.World.bodies\<close>), \<open>bodies\<close> the registry \<open>Map\<close> from visual object to body,
  in insertion order.  The two material numbers are those of the shared default material.
\<close>

record sys =
  objs :: "string \<rightharpoonup> three_object"
  world :: "nat list"
  bodies :: "(string \<times> nat) list"
  enabled :: bool
  store :: "nat \<rightharpoonup> body"
  fresh :: nat
  material_friction :: real
  material_restitution :: real

definition setEnabled :: "bool \<Rightarrow> 'a sys_scheme \<Rightarrow> 'a sys_scheme" where
  "setEnabled e s = s\<lparr>enabled := e\<rparr>"

definition getBody :: "'a sys_scheme \<Rightarrow> string \<Rightarrow> nat option" where
  "getBody s u = map_of (bodies s) u"

text \<open>The callback of \<open>this.bodies.forEach\<close> in \<open>step\<close>.\<close>

definition sync_entry :: "string \<times> nat \<Rightarrow> 'a sys_scheme \<Rightarrow> 'a sys_scheme" where
  "sync_entry e s =
     (case (store s (snd e), objs s (fst e)) of
        (Some b, Some obj) \<Rightarrow>
          if btype b \<noteq> STATIC then
            (let positionDiff = distanceTo (position obj) (bposition b)
             in if positionDiff > 0.001
                then s\<lparr>objs := (objs s)(fst e \<mapsto>
                         obj\<lparr>position := bposition b,
                             orientation := FromQuaternion (bquaternion b)\<rparr>)\<rparr>
                else s)
          else s
      | _ \<Rightarrow> s)"

text \<open>
  \<open>step\<close>.  The simulator's own \<open>world.step\<close> is outside the repository: it is the
  parameter \<open>sim\<close>, which may rewrite the bodies in any way.
\<close>

definition step ::
  "(real \<Rightarrow> nat list \<Rightarrow> (nat \<rightharpoonup> body) \<Rightarrow> (nat \<rightharpoonup> body)) \<Rightarrow> real \<Rightarrow> 'a sys_scheme
     \<Rightarrow> 'a sys_scheme" where
  "step sim deltaTime s =
     (if \<not> enabled s then s
      else fold sync_entry (bodies s) (s\<lparr>store := sim deltaTime (world s) (store s)\<rparr>))"


subsection \<open>addBody: the shape\<close>

text \<open>\<open>findMesh\<close>, the local helper of the \<open>trimesh\<close> and \<open>convex\<close> cases.\<close>

fun findMesh :: "node \<Rightarrow> geometry option"
  and findMesh_children :: "node list \<Rightarrow> geometry option" where
  "findMesh (Node nm im sk g cs) =
     (if g \<noteq> None \<and> \<not> str_includes nm ''wireframe'' then g else findMesh_children cs)"
| "findMesh_children [] = None"
| "findMesh_children (c # cs) =
     (if nname c = ''__wireframeHelper'' then findMesh_children cs
      else (case findMesh c of Some g \<Rightarrow> Some g | None \<Rightarrow> findMesh_children cs))"

definition as_node :: "'a three_object_scheme \<Rightarrow> node" where
  "as_node obj = Node (name obj) (isMesh obj) (isSkinnedMesh obj) (ogeometry obj) (children obj)"

definition opt_or :: "'a option \<Rightarrow> 'a option \<Rightarrow> 'a option" where
  "opt_or a b = (case a of Some v \<Rightarrow> Some v | None \<Rightarrow> b)"

definition half_box :: "vec3 \<Rightarrow> shape" where
  "half_box sz = Box (Vec3 (vx sz / 2) (vy sz / 2) (vz sz / 2))"

text \<open>\<open>frames.reduce\<close> with \<open>Math.min\<close> from \<open>Infinity\<close> and \<open>Math.max\<close> from \<open>-Infinity\<close>;
  \<open>None\<close> stands for the infinite start value.\<close>

definition reduce_min :: "real list \<Rightarrow> real option" where
  "reduce_min vs = fold (\<lambda>v acc. Some (case acc of None \<Rightarrow> v | Some a \<Rightarrow> min a v)) vs None"

definition reduce_max :: "real list \<Rightarrow> real option" where
  "reduce_max vs = fold (\<lambda>v acc. Some (case acc of None \<Rightarrow> v | Some a \<Rightarrow> max a v)) vs None"

definition extent :: "real list \<Rightarrow> real list \<Rightarrow> real" where
  "extent los his =
     (case (reduce_min los, reduce_max his) of (Some lo, Some hi) \<Rightarrow> hi - lo | _ \<Rightarrow> 0)"

definition frameSize :: "frame \<Rightarrow> vec3" where
  "frameSize f = (case fsize f of None \<Rightarrow> Vec3 1 1 1 | Some sz \<Rightarrow> sz)"

definition framePos :: "frame \<Rightarrow> vec3" where
  "framePos f = (case fposition f of None \<Rightarrow> Vec3 0 0 0 | Some p \<Rightarrow> p)"

definition compoundSize :: "frame list \<Rightarrow> vec3" where
  "compoundSize fs =
     Vec3 (extent (map (\<lambda>f. vx (framePos f) - vx (frameSize f) / 2) fs)
                  (map (\<lambda>f. vx (framePos f) + vx (frameSize f) / 2) fs))
          (extent (map (\<lambda>f. vy (framePos f) - vy (frameSize f) / 2) fs)
                  (map (\<lambda>f. vy (framePos f) + vy (frameSize f) / 2) fs))
          (extent (map (\<lambda>f. vz (framePos f) - vz (frameSize f) / 2) fs)
                  (map (\<lambda>f. vz (framePos f) + vz (frameSize f) / 2) fs))"

definition opt_type_of :: "body_options \<Rightarrow> string" where
  "opt_type_of bodyOptions = (case opt_type bodyOptions of None \<Rightarrow> ''box'' | Some t \<Rightarrow> t)"

definition opt_mass_of :: "body_options \<Rightarrow> real" where
  "opt_mass_of bodyOptions = (case opt_mass bodyOptions of None \<Rightarrow> 1 | Some m \<Rightarrow> m)"

definition opt_size_of :: "body_options \<Rightarrow> vec3" where
  "opt_size_of bodyOptions = (case opt_size bodyOptions of None \<Rightarrow> Vec3 1 1 1 | Some sz \<Rightarrow> sz)"

definition has_frames :: "body_options \<Rightarrow> bool" where
  "has_frames bodyOptions = (case opt_frames bodyOptions of None \<Rightarrow> False | Some fs \<Rightarrow> fs \<noteq> [])"

text \<open>The \<open>switch (type)\<close> of \<open>addBody\<close>: the shape (\<open>None\<close> when the \<open>convex\<close> case
  leaves \<open>shape\<close> unassigned).  For a geometry without an index the constructor of
  \<open>CANNON.Trimesh\<close> throws and the \<open>catch\<close> builds the box.  Radii are taken not to be
  negative: for a negative one the simulator's sphere and cylinder constructors throw,
  which the model does not follow.\<close>

definition make_shape :: "'a three_object_scheme \<Rightarrow> body_options \<Rightarrow> shape option" where
  "make_shape threeObject bodyOptions =
     (let type = opt_type_of bodyOptions; sz = opt_size_of bodyOptions;
          radius = opt_radius bodyOptions; height = opt_height bodyOptions
      in if type = ''box'' then Some (half_box sz)
         else if type = ''sphere'' then Some (Sphere (num_or radius (vx sz / 2)))
         else if type = ''plane'' then Some Plane
         else if type = ''cylinder'' then
           (let cylRadius = num_or radius (vx sz / 2); cylHeight = num_or height (vy sz)
            in Some (Cylinder cylRadius cylRadius cylHeight 8))
         else if type = ''capsule'' then
           (let capRadius = num_or radius (min (vx sz) (vz sz) / 2);
                capHeight = num_or height (vy sz)
            in Some (Cylinder capRadius capRadius capHeight 8))
         else if type = ''trimesh'' then
           (case opt_or (ogeometry threeObject) (findMesh (as_node threeObject)) of
              Some geom \<Rightarrow>
                (case index geom of
                   Some indices \<Rightarrow> Some (Trimesh (positions geom) indices)
                 | None \<Rightarrow> Some (half_box sz))
            | None \<Rightarrow> Some (half_box sz))
         else if type = ''convex'' then
           (case opt_or (opt_collisionMesh bodyOptions)
                   (opt_or (ogeometry threeObject) (findMesh (as_node threeObject))) of
              None \<Rightarrow> Some (half_box sz)
            | Some geom \<Rightarrow>
                (case convexGeo geom of
                   None \<Rightarrow> Some (half_box sz)
                 | Some None \<Rightarrow> None
                 | Some (Some (vertices, indices)) \<Rightarrow>
                     Some (ConvexPolyhedron vertices indices)))
         else if type = ''platform'' then Some (half_box sz)
         else if type = ''solidPlatform'' then Some (half_box sz)
         else if type = ''compound'' then
           (case opt_frames bodyOptions of
              None \<Rightarrow> Some (half_box sz)
            | Some frames \<Rightarrow>
                if frames = [] then Some (half_box sz)
                else (let cs = compoundSize frames
                      in Some (Box (Vec3 (max (vx cs / 2) 0.1) (max (vy cs / 2) 0.1)
                                         (max (vz cs / 2) 0.1)))))
         else Some (half_box sz))"

definition isPlatform_of :: "body_options \<Rightarrow> bool" where
  "isPlatform_of bodyOptions = (opt_type_of bodyOptions = ''platform'')"

definition isSolidPlatform_of :: "body_options \<Rightarrow> bool" where
  "isSolidPlatform_of bodyOptions = (opt_type_of bodyOptions = ''solidPlatform'')"


subsection \<open>addBody: the body\<close>

text \<open>\<open>new CANNON.Body({mass, material, shape, type, isTrigger})\<close> with the library's
  defaults for the fields the options do not give.\<close>

definition new_body :: "real \<Rightarrow> shape option \<Rightarrow> body_type \<Rightarrow> bool \<Rightarrow> body" where
  "new_body m sh t trig =
     \<lparr> mass = m, btype = t, isTrigger = trig,
       shapes = (case sh of None \<Rightarrow> [] | Some s \<Rightarrow> [(s, Vec3 0 0 0, quat_identity)]),
       bposition = Vec3 0 0 0, bquaternion = quat_identity,
       velocity = Vec3 0 0 0, angularVelocity = Vec3 0 0 0,
       linearDamping = 0.01, angularDamping = 0.01,
       sleepSpeedLimit = 0.1, sleepTimeLimit = 1,
       collisionResponse = True, userData = no_userData \<rparr>"

definition isGroundObject :: "'a three_object_scheme \<Rightarrow> bool" where
  "isGroundObject threeObject =
     (name threeObject = ''Ground'' \<or> name threeObject = ''GroundPlane''
      \<or> str_includes (toLowerCase (name threeObject)) ''ground''
      \<or> str_includes (toLowerCase (name threeObject)) ''plane'')"

text \<open>The child shape, local offset and local orientation that the \<open>frames.forEach\<close>
  of \<open>addBody\<close> hands to \<open>body.addShape\<close>.  The two \<open>mult\<close> calls on \<open>childQuat\<close> are
  evaluated and their result is not stored.  As in the \<open>switch\<close>, radii are taken not to
  be negative.\<close>

definition childShape :: "vec3 \<Rightarrow> frame \<Rightarrow> shape" where
  "childShape ws f =
     (if ftype f = ''box'' then
        Box (Vec3 ((num_or (map_option vx (fsize f)) 1 * vx ws) / 2)
                  ((num_or (map_option vy (fsize f)) 1 * vy ws) / 2)
                  ((num_or (map_option vz (fsize f)) 1 * vz ws) / 2))
      else if ftype f = ''sphere'' then
        Sphere (num_or (fradius f) 0.5 * max (max (vx ws) (vy ws)) (vz ws))
      else if ftype f = ''capsule'' then
        Sphere (num_or (fradius f) 0.5 * max (vx ws) (vz ws))
      else Box (Vec3 0.5 0.5 0.5))"

definition childPos :: "vec3 \<Rightarrow> frame \<Rightarrow> vec3" where
  "childPos ws f =
     Vec3 (num_or (map_option vx (fposition f)) 0 * vx ws)
          (num_or (map_option vy (fposition f)) 0 * vy ws)
          (num_or (map_option vz (fposition f)) 0 * vz ws)"

definition childQuat :: "frame \<Rightarrow> quat" where
  "childQuat f =
     (case frotation f of
        None \<Rightarrow> quat_identity
      | Some r \<Rightarrow>
          (let q = setFromAxisAngle (Vec3 1 0 0) (num_or (Some (vx r)) 0 * pi / 180);
               yQuat = setFromAxisAngle (Vec3 0 1 0) (num_or (Some (vy r)) 0 * pi / 180);
               zQuat = setFromAxisAngle (Vec3 0 0 1) (num_or (Some (vz r)) 0 * pi / 180);
               discarded = mult (mult q yQuat) zQuat
           in q))"

definition childShapes :: "vec3 \<Rightarrow> frame list \<Rightarrow> (shape \<times> vec3 \<times> quat) list" where
  "childShapes ws fs = map (\<lambda>f. (childShape ws f, childPos ws f, childQuat f)) fs"

text \<open>The body that \<open>addBody\<close> builds for a visual object, up to the moment it is stored
  in the registry.\<close>

definition build_body :: "string \<Rightarrow> 'a three_object_scheme \<Rightarrow> body_options \<Rightarrow> body" where
  "build_body u threeObject bodyOptions =
     (let type = opt_type_of bodyOptions;
          m = opt_mass_of bodyOptions;
          isStatic = opt_isStatic bodyOptions;
          isPlatform = isPlatform_of bodyOptions;
          isSolidPlatform = isSolidPlatform_of bodyOptions;
          b0 = new_body (if isStatic then 0 else (if isPlatform then 0
                         else if isSolidPlatform then 0 else m))
                 (make_shape threeObject bodyOptions)
                 (if isStatic then STATIC else DYNAMIC) isPlatform;
          b1 = b0\<lparr>bposition := position threeObject\<rparr>;
          b2 = b1\<lparr>bquaternion := (if isGroundObject threeObject \<and> isStatic then quat_identity
                                  else quaternion_of (orientation threeObject))\<rparr>;
          b3 = (case opt_offset bodyOptions of
                  None \<Rightarrow> b2
                | Some off \<Rightarrow> b2\<lparr>bposition := vec_add (bposition b2) off,
                                 userData := (userData b2)\<lparr>ud_offset := Some off\<rparr>\<rparr>);
          b4 = (case opt_frameOffset bodyOptions of
                  None \<Rightarrow> b3
                | Some off \<Rightarrow> b3\<lparr>bposition := vec_add (bposition b3) off\<rparr>);
          b5 = (case opt_frameRotation bodyOptions of
                  None \<Rightarrow> b4
                | Some r \<Rightarrow>
                    if isGroundObject threeObject then b4
                    else (let frameQuat = setFromAxisAngle (Vec3 1 0 0) (vx r * pi / 180);
                              yQuat = setFromAxisAngle (Vec3 0 1 0) (vy r * pi / 180);
                              zQuat = setFromAxisAngle (Vec3 0 0 1) (vz r * pi / 180)
                          in b4\<lparr>bquaternion :=
                                  mult (mult (mult (bquaternion b4) frameQuat) yQuat) zQuat\<rparr>));
          b6 = (if \<not> isPlatform \<and> \<not> isSolidPlatform \<and> m > 0 \<and> \<not> isStatic
                then b5\<lparr>linearDamping := 0.05, angularDamping := 0.05,
                        sleepSpeedLimit := 0.5, sleepTimeLimit := 0.5\<rparr>
                else b5);
          b7 = (if isPlatform
                then b6\<lparr>btype := KINEMATIC, collisionResponse := False,
                        userData := no_userData\<lparr>ud_isPlatform := True,
                          ud_threeObject := Some u, ud_platformType := Some ''trigger''\<rparr>\<rparr>
                else b6);
          b8 = (if opt_isTrigger bodyOptions
                then b7\<lparr>btype := KINEMATIC, collisionResponse := False,
                        userData := (userData b7)\<lparr>ud_isTrigger := True\<rparr>\<rparr>
                else b7);
          b9 = (if isSolidPlatform
                then b8\<lparr>btype := STATIC,
                        userData := no_userData\<lparr>ud_isSolidPlatform := True,
                          ud_threeObject := Some u, ud_platformType := Some ''solid''\<rparr>\<rparr>
                else b8)
      in if type = ''compound'' \<and> has_frames bodyOptions
         then b9\<lparr>shapes := shapes b9
                   @ childShapes (worldScale threeObject) (the (opt_frames bodyOptions))\<rparr>
         else b9)"

text \<open>
  \<open>addBody\<close>.  \<open>world.addBody\<close> appends the new body to the simulator's list,
  \<open>this.bodies.set\<close> writes the registry entry of the object (in place when the object
  has one already), and the object's \<open>userData.physicsBody\<close> is pointed at the body.
  Every caller passes an object it has just looked up; for a uuid that denotes nothing
  the model leaves the state as it is.  The \<open>_usedAsCollision\<close> mark that the last lines
  put on a collision mesh is read by the editor only and is left out.
\<close>

definition addBody :: "string \<Rightarrow> body_options \<Rightarrow> 'a sys_scheme \<Rightarrow> 'a sys_scheme" where
  "addBody u bodyOptions s =
     (case objs s u of
        None \<Rightarrow> s
      | Some threeObject \<Rightarrow>
          (let r = fresh s;
               b = build_body u threeObject bodyOptions;
               isPlatform = isPlatform_of bodyOptions;
               isSolidPlatform = isSolidPlatform_of bodyOptions
           in s\<lparr> world := world s @ [r],
                 bodies := AList.update u r (bodies s),
                 store := (store s)(r \<mapsto> b),
                 objs := (objs s)(u \<mapsto> threeObject\<lparr>physicsBody := Some r\<rparr>),
                 fresh := Suc r,
                 material_friction :=
                   (if isSolidPlatform then 0.8 else if isPlatform then 0
                    else material_friction s),
                 material_restitution :=
                   (if isSolidPlatform \<or> isPlatform then 0 else material_restitution s) \<rparr>))"

text \<open>\<open>removeBody\<close>, \<open>clear\<close>: \<open>world.removeBody\<close> takes the body out of the simulator's
  list.\<close>

definition removeBody :: "string \<Rightarrow> 'a sys_scheme \<Rightarrow> 'a sys_scheme" where
  "removeBody u s =
     (case map_of (bodies s) u of
        None \<Rightarrow> s
      | Some r \<Rightarrow>
          s\<lparr> world := removeAll r (world s),
             bodies := AList.delete u (bodies s),
             objs := (case objs s u of
                        None \<Rightarrow> objs s
                      | Some threeObject \<Rightarrow> (objs s)(u \<mapsto> threeObject\<lparr>physicsBody := None\<rparr>)) \<rparr>)"

definition setVelocity :: "string \<Rightarrow> vec3 \<Rightarrow> 'a sys_scheme \<Rightarrow> 'a sys_scheme" where
  "setVelocity u v s =
     (case map_of (bodies s) u of
        None \<Rightarrow> s
      | Some r \<Rightarrow>
          (case store s r of
             None \<Rightarrow> s
           | Some b \<Rightarrow> s\<lparr>store := (store s)(r \<mapsto> b\<lparr>velocity := v\<rparr>)\<rparr>))"

definition clear :: "'a sys_scheme \<Rightarrow> 'a sys_scheme" where
  "clear s = s\<lparr> world := fold (\<lambda>e w. removeAll (snd e) w) (bodies s) (world s), bodies := [] \<rparr>"

section \<open>Shape inference\<close>

text \<open>
  What \<open>autoDetectCollisionShape\<close> and \<open>autoDetectCharacterCollision\<close> return.  (The
  \<open>mesh\<close> entry of the result is passed on to \<open>addBody\<close>, which never reads it.)
  The reals of the model have no \<open>Infinity\<close> and no \<open>NaN\<close>: where the code divides by a
  bounding-box extent that is zero, the model's quotient stands for no JavaScript number.
\<close>

record shape_info =
  si_type :: string
  si_size :: "vec3 option"
  si_radius :: "real option"
  si_height :: "real option"
  si_offset :: "vec3 option"

fun traverse :: "node \<Rightarrow> node list" where
  "traverse (Node nm im sk g cs) = Node nm im sk g cs # concat (map traverse cs)"

text \<open>\<open>Box3.getSize\<close> and \<open>Box3.getCenter\<close>: zero for an empty box.\<close>

definition box_isEmpty :: "vec3 \<Rightarrow> vec3 \<Rightarrow> bool" where
  "box_isEmpty lo hi = (vx hi < vx lo \<or> vy hi < vy lo \<or> vz hi < vz lo)"

definition getSize :: "vec3 \<Rightarrow> vec3 \<Rightarrow> vec3" where
  "getSize lo hi =
     (if box_isEmpty lo hi then Vec3 0 0 0
      else Vec3 (vx hi - vx lo) (vy hi - vy lo) (vz hi - vz lo))"

definition getCenter :: "vec3 \<Rightarrow> vec3 \<Rightarrow> vec3" where
  "getCenter lo hi =
     (if box_isEmpty lo hi then Vec3 0 0 0
      else Vec3 ((vx lo + vx hi) * 0.5) ((vy lo + vy hi) * 0.5) ((vz lo + vz hi) * 0.5))"

text \<open>The size of \<open>new THREE.Box3().setFromPoints(vertices)\<close>.\<close>

fun list_min :: "real list \<Rightarrow> real" where
  "list_min [] = 0"
| "list_min (v # vs) = fold min vs v"

fun list_max :: "real list \<Rightarrow> real" where
  "list_max [] = 0"
| "list_max (v # vs) = fold max vs v"

definition localSize :: "vec3 list \<Rightarrow> vec3" where
  "localSize vertices =
     (if vertices = [] then Vec3 0 0 0
      else Vec3 (list_max (map vx vertices) - list_min (map vx vertices))
                (list_max (map vy vertices) - list_min (map vy vertices))
                (list_max (map vz vertices) - list_min (map vz vertices)))"

definition isOnFace :: "vec3 \<Rightarrow> vec3 \<Rightarrow> bool" where
  "isOnFace sz vertex =
     (\<bar>\<bar>vx vertex\<bar> - vx sz / 2\<bar> < 0.01 \<or> \<bar>\<bar>vy vertex\<bar> - vy sz / 2\<bar> < 0.01
      \<or> \<bar>\<bar>vz vertex\<bar> - vz sz / 2\<bar> < 0.01)"

text \<open>\<open>isBox\<close>; for no vertices the quotient is \<open>NaN\<close> and the comparison false.\<close>

definition isBox :: "vec3 list \<Rightarrow> vec3 \<Rightarrow> bool" where
  "isBox vertices sz =
     (let alignedCount = length (filter (isOnFace sz) vertices)
      in vertices \<noteq> [] \<and> real alignedCount / real (length vertices) > 0.8)"

definition centroid :: "vec3 list \<Rightarrow> vec3" where
  "centroid vertices =
     Vec3 (sum_list (map vx vertices) / real (length vertices))
          (sum_list (map vy vertices) / real (length vertices))
          (sum_list (map vz vertices) / real (length vertices))"

text \<open>\<open>isSphere\<close>: the radius when the test succeeds.\<close>

definition isSphere :: "vec3 list \<Rightarrow> real option" where
  "isSphere vertices =
     (if length vertices < 10 then None
      else (let center = centroid vertices;
                avgRadius = sum_list (map (\<lambda>v. distanceTo v center) vertices)
                              / real (length vertices);
                variance = sum_list (map (\<lambda>v. (distanceTo v center - avgRadius)
                                              * (distanceTo v center - avgRadius)) vertices)
                              / real (length vertices);
                threshold = avgRadius * 0.1
            in if variance < threshold * threshold then Some avgRadius else None))"

text \<open>\<open>getCircleRadius\<close>.  Its centre is a \<open>Vector2\<close>: the sum of the \<open>z\<close> coordinates goes
  to a property the vector does not have, and the \<open>y\<close> component, which is then used as
  the centre's \<open>z\<close>, stays 0.\<close>

definition getCircleRadius :: "vec3 list \<Rightarrow> real option" where
  "getCircleRadius vertices =
     (if length vertices < 3 then None
      else (let cx = sum_list (map vx vertices) / real (length vertices);
                cy = 0 / real (length vertices);
                dist = (\<lambda>v. sqrt ((vx v - cx) * (vx v - cx) + (vz v - cy) * (vz v - cy)));
                avgRadius = sum_list (map dist vertices) / real (length vertices);
                variance = sum_list (map (\<lambda>v. (dist v - avgRadius) * (dist v - avgRadius))
                                      vertices) / real (length vertices);
                threshold = avgRadius * 0.15
            in if variance < threshold * threshold then Some avgRadius else None))"

definition isCylinder :: "vec3 list \<Rightarrow> vec3 \<Rightarrow> real option" where
  "isCylinder vertices sz =
     (if length vertices < 12 then None
      else (let midY = 0;
                topVerts = filter (\<lambda>v. vy v > midY + vy sz * 0.3) vertices;
                bottomVerts = filter (\<lambda>v. \<not> vy v > midY + vy sz * 0.3
                                           \<and> vy v < midY - vy sz * 0.3) vertices
            in if length topVerts < 3 \<or> length bottomVerts < 3 then None
               else (case (getCircleRadius topVerts, getCircleRadius bottomVerts) of
                       (Some topRadius, Some bottomRadius) \<Rightarrow>
                         if topRadius = 0 \<or> bottomRadius = 0 then None
                         else (let radiusDiff = \<bar>topRadius - bottomRadius\<bar>;
                                   avgRadius = (topRadius + bottomRadius) / 2
                               in if radiusDiff < avgRadius * 0.2 then Some avgRadius
                                  else None)
                     | _ \<Rightarrow> None)))"

definition detectPrimitiveShape :: "geometry \<Rightarrow> vec3 \<Rightarrow> shape_info option" where
  "detectPrimitiveShape geom worldSize =
     (let vertices = positions geom; vertexCount = length vertices
      in if vertexCount > 200 then None
         else (let lsz = localSize vertices
               in if isBox vertices lsz then
                    Some \<lparr> si_type = ''box'',
                           si_size = Some (Vec3 (vx worldSize / 2) (vy worldSize / 2)
                                                (vz worldSize / 2)),
                           si_radius = None, si_height = None, si_offset = None \<rparr>
                  else (case isSphere vertices of
                          Some r \<Rightarrow>
                            (let scale = vec_length worldSize / vec_length lsz
                             in Some \<lparr> si_type = ''sphere'', si_size = None,
                                       si_radius = Some (r * scale), si_height = None,
                                       si_offset = None \<rparr>)
                        | None \<Rightarrow>
                            (case isCylinder vertices lsz of
                               Some r \<Rightarrow>
                                 (let scaleXZ = max (vx worldSize / vx lsz)
                                                    (vz worldSize / vz lsz)
                                  in Some \<lparr> si_type = ''cylinder'', si_size = None,
                                            si_radius = Some (r * scaleXZ),
                                            si_height = Some (vy worldSize),
                                            si_offset = None \<rparr>)
                             | None \<Rightarrow> None))))"

definition meshes_of :: "'a three_object_scheme \<Rightarrow> node list" where
  "meshes_of object =
     filter (\<lambda>child. nisMesh child \<and> ngeometry child \<noteq> None
                      \<and> \<not> str_includes (nname child) ''wireframe'')
            (traverse (as_node object))"

definition autoDetectCollisionShape :: "'a three_object_scheme \<Rightarrow> shape_info" where
  "autoDetectCollisionShape object =
     (case meshes_of object of
        [] \<Rightarrow> \<lparr> si_type = ''box'', si_size = Some (Vec3 0.5 0.5 0.5), si_radius = None,
                si_height = None, si_offset = None \<rparr>
      | mainMesh # rest \<Rightarrow>
          (case ngeometry mainMesh of
             None \<Rightarrow> \<lparr> si_type = ''box'', si_size = Some (Vec3 0.5 0.5 0.5), si_radius = None,
                        si_height = None, si_offset = None \<rparr>
           | Some geom \<Rightarrow>
               (let sz = getSize (bbox_min object) (bbox_max object)
                in case detectPrimitiveShape geom sz of
                     Some shapeType \<Rightarrow>
                       \<lparr> si_type = si_type shapeType, si_size = si_size shapeType,
                         si_radius = si_radius shapeType, si_height = si_height shapeType,
                         si_offset = None \<rparr>
                   | None \<Rightarrow>
                       (let vertexCount = length (positions geom)
                        in if vertexCount < 500
                           then \<lparr> si_type = ''convex'',
                                  si_size = Some (Vec3 (vx sz / 2) (vy sz / 2) (vz sz / 2)),
                                  si_radius = None, si_height = None, si_offset = None \<rparr>
                           else \<lparr> si_type = ''trimesh'',
                                  si_size = Some (Vec3 (vx sz / 2) (vy sz / 2) (vz sz / 2)),
                                  si_radius = None, si_height = None, si_offset = None \<rparr>))))"

definition autoDetectCharacterCollision :: "'a three_object_scheme \<Rightarrow> shape_info" where
  "autoDetectCharacterCollision object =
     (let sz = getSize (bbox_min object) (bbox_max object);
          center = getCenter (bbox_min object) (bbox_max object);
          radius = min (vx sz) (vz sz) * 0.45;
          height = vy sz * 0.90;
          off = Vec3 (vx center - vx (position object)) (height / 2)
                     (vz center - vz (position object))
      in \<lparr> si_type = ''capsule'', si_size = Some (Vec3 radius height radius),
           si_radius = Some radius, si_height = Some height, si_offset = Some off \<rparr>)"

section \<open>Scene store and play session\<close>

text \<open>The per-object data of the scene store's \<open>objects\<close> map, as far as the physics
  layer reads it.  \<open>pc_autoCreate\<close> is \<open>null\<close> or the requested type.\<close>

record physics_config =
  pc_enabled :: bool
  pc_bodyType :: "string option"
  pc_mass :: "real option"
  pc_size :: "vec3 option"
  pc_isTrigger :: bool
  pc_isStatic :: bool
  pc_useCollisionMesh :: bool
  pc_autoCreate :: "string option"

record object_data =
  od_physics :: "physics_config option"
  od_isPlayer :: bool
  od_collisionFrames :: "frame list option"
  od_collisionMesh :: "string option"

text \<open>The two stores together: the scene store (the physics world, the \<open>scene\<close>
  reference, the \<open>objects\<close> map in insertion order) and the play store's flags.
  \<open>sceneStoreRef\<close> and \<open>scene\<close> say whether the reference is set.\<close>

record app = sys +
  sceneStoreRef :: bool
  scene :: bool
  objects :: "(string \<times> object_data) list"
  isPlaying :: bool
  isPaused :: bool
  suppressCollisionFrameUpdates :: bool

definition truthy :: "string option \<Rightarrow> bool" where
  "truthy a = (case a of None \<Rightarrow> False | Some t \<Rightarrow> t \<noteq> [])"

definition str_or :: "string option \<Rightarrow> string \<Rightarrow> string" where
  "str_or a d = (if truthy a then the a else d)"

definition hasManualFrames :: "object_data \<Rightarrow> bool" where
  "hasManualFrames objectData =
     (case od_collisionFrames objectData of None \<Rightarrow> False | Some fs \<Rightarrow> fs \<noteq> [])"

definition hasSkinned :: "'a three_object_scheme \<Rightarrow> bool" where
  "hasSkinned object = list_ex nisSkinnedMesh (traverse (as_node object))"

definition setSuppressCollisionFrameUpdates :: "bool \<Rightarrow> 'a app_scheme \<Rightarrow> 'a app_scheme" where
  "setSuppressCollisionFrameUpdates flag s = s\<lparr>suppressCollisionFrameUpdates := flag\<rparr>"

text \<open>The body options \<open>play\<close> builds in its three creating branches.\<close>

definition play_mass :: "physics_config \<Rightarrow> real" where
  "play_mass physics = (if pc_isStatic physics then 0 else num_or (pc_mass physics) 1)"

definition compound_options :: "object_data \<Rightarrow> physics_config \<Rightarrow> body_options" where
  "compound_options objectData physics =
     no_options\<lparr> opt_type := Some ''compound'', opt_mass := Some (play_mass physics),
       opt_isCharacter := od_isPlayer objectData, opt_isStatic := pc_isStatic physics,
       opt_frames := od_collisionFrames objectData \<rparr>"

definition detect_shape :: "object_data \<Rightarrow> 'a three_object_scheme \<Rightarrow> shape_info" where
  "detect_shape objectData threeObject =
     (if od_isPlayer objectData then autoDetectCharacterCollision threeObject
      else autoDetectCollisionShape threeObject)"

definition mesh_auto_options ::
  "object_data \<Rightarrow> physics_config \<Rightarrow> 'a three_object_scheme \<Rightarrow> body_options" where
  "mesh_auto_options objectData physics threeObject =
     (let shapeInfo = detect_shape objectData threeObject
      in no_options\<lparr> opt_type := Some (if hasSkinned threeObject \<and> si_type shapeInfo = ''trimesh''
                                         then ''convex'' else si_type shapeInfo),
           opt_mass := Some (play_mass physics), opt_size := si_size shapeInfo,
           opt_radius := si_radius shapeInfo, opt_height := si_height shapeInfo,
           opt_offset := si_offset shapeInfo, opt_isCharacter := od_isPlayer objectData,
           opt_isStatic := pc_isStatic physics \<rparr>)"

definition group_auto_options ::
  "object_data \<Rightarrow> physics_config \<Rightarrow> 'a three_object_scheme \<Rightarrow> body_options" where
  "group_auto_options objectData physics threeObject =
     (let shapeInfo = detect_shape objectData threeObject
      in no_options\<lparr> opt_type := Some (if si_type shapeInfo = ''trimesh'' then ''convex''
                                         else si_type shapeInfo),
           opt_mass := Some (play_mass physics), opt_size := si_size shapeInfo,
           opt_radius := si_radius shapeInfo, opt_height := si_height shapeInfo,
           opt_isCharacter := od_isPlayer objectData, opt_isStatic := pc_isStatic physics \<rparr>)"

text \<open>Storing the original transform on the object (\<open>position.clone()\<close>,
  \<open>rotation.clone()\<close>).\<close>

definition store_original :: "string \<Rightarrow> 'a sys_scheme \<Rightarrow> 'a sys_scheme" where
  "store_original uuid s =
     (case objs s uuid of
        None \<Rightarrow> s
      | Some threeObject \<Rightarrow>
          s\<lparr>objs := (objs s)(uuid \<mapsto>
               threeObject\<lparr> originalPosition := Some (position threeObject),
                              originalRotation := Some (rotation_of (orientation threeObject)) \<rparr>)\<rparr>)"

text \<open>The callback of the second \<open>objects.forEach\<close> of \<open>play\<close>: one object of the store.\<close>

definition play_object :: "string \<times> object_data \<Rightarrow> 'a sys_scheme \<Rightarrow> 'a sys_scheme" where
  "play_object e s =
     (let uuid = fst e; objectData = snd e
      in case od_physics objectData of
           None \<Rightarrow> s
         | Some physics \<Rightarrow>
             if \<not> pc_enabled physics then s
             else (case objs s uuid of
                     None \<Rightarrow> s
                   | Some threeObject \<Rightarrow>
                       if isMesh threeObject then
                         (let s1 = store_original uuid s
                          in if hasManualFrames objectData then
                               addBody uuid (compound_options objectData physics)
                                 (removeBody uuid s1)
                             else if truthy (pc_autoCreate physics) then
                               addBody uuid (mesh_auto_options objectData physics threeObject)
                                 (removeBody uuid s1)
                             else s1)
                       else
                         (let s1 = store_original uuid s
                          in if hasManualFrames objectData then s1
                             else if truthy (pc_autoCreate physics) then
                               addBody uuid (group_auto_options objectData physics threeObject)
                                 (removeBody uuid s1)
                             else s1)))"

text \<open>\<open>activateAllPhysicsBodies\<close> of the scene store.\<close>

definition activate_options :: "physics_config \<Rightarrow> body_options" where
  "activate_options physics =
     no_options\<lparr> opt_type := Some (str_or (pc_bodyType physics) ''box''),
       opt_mass := Some (num_or (pc_mass physics) 1),
       opt_size := Some (case pc_size physics of None \<Rightarrow> Vec3 1 1 1 | Some sz \<Rightarrow> sz) \<rparr>"

definition activate_object :: "string \<times> object_data \<Rightarrow> 'a sys_scheme \<Rightarrow> 'a sys_scheme" where
  "activate_object e s =
     (let objectId = fst e; objectData = snd e
      in case od_physics objectData of
           None \<Rightarrow> s
         | Some physics \<Rightarrow>
             if \<not> pc_enabled physics then s
             else (case objs s objectId of
                     None \<Rightarrow> s
                   | Some threeObject \<Rightarrow>
                       if otype threeObject = ''Mesh'' then
                         (case getBody s objectId of
                            None \<Rightarrow> addBody objectId (activate_options physics) s
                          | Some existingBody \<Rightarrow> s)
                       else s))"

definition activateAllPhysicsBodies :: "'a app_scheme \<Rightarrow> 'a app_scheme" where
  "activateAllPhysicsBodies s = (if \<not> scene s then s else fold activate_object (objects s) s)"

text \<open>\<open>play\<close>, \<open>pause\<close>, \<open>resume\<close>.\<close>

definition play :: "'a app_scheme \<Rightarrow> 'a app_scheme" where
  "play s =
     (if sceneStoreRef s then
        (let s1 = setSuppressCollisionFrameUpdates True s
         in if scene s1 then
              (let s2 = fold play_object (objects s1) s1;
                   s3 = setSuppressCollisionFrameUpdates False s2;
                   s4 = activateAllPhysicsBodies s3;
                   s5 = setEnabled True s4
               in s5\<lparr>isPlaying := True, isPaused := False\<rparr>)
            else s1)
      else s)"

definition pause :: "'a app_scheme \<Rightarrow> 'a app_scheme" where
  "pause s =
     (if isPlaying s then
        (let s1 = s\<lparr>isPaused := True\<rparr>
         in if sceneStoreRef s1 then setEnabled False s1 else s1)
      else s)"

definition resume :: "'a app_scheme \<Rightarrow> 'a app_scheme" where
  "resume s =
     (let s1 = s\<lparr>isPaused := False\<rparr>
      in if sceneStoreRef s1 then setEnabled True s1 else s1)"

text \<open>\<open>stop\<close>: the reset of one object, then the whole function.\<close>

definition reset_transform :: "'a three_object_scheme \<Rightarrow> 'a three_object_scheme" where
  "reset_transform threeObject =
     (let o1 =
        (case originalPosition threeObject of
           Some p \<Rightarrow>
             threeObject\<lparr> position := p,
               orientation := FromEuler (case originalRotation threeObject of
                                           Some r \<Rightarrow> r | None \<Rightarrow> Vec3 0 0 0) \<rparr>
         | None \<Rightarrow>
             if name threeObject = ''DemoCube''
             then threeObject\<lparr> position := Vec3 0 5 0, orientation := FromEuler (Vec3 0 0 0) \<rparr>
             else threeObject\<lparr> position := Vec3 (vx (position threeObject))
                                                (max (vy (position threeObject)) 3)
                                                (vz (position threeObject)),
                                orientation := FromEuler (Vec3 0 0 0) \<rparr>)
      in o1\<lparr> ud_velocity := Some (Vec3 0 0 0) \<rparr>)"

definition stop_object :: "string \<times> object_data \<Rightarrow> 'a sys_scheme \<Rightarrow> 'a sys_scheme" where
  "stop_object e s =
     (let uuid = fst e; objectData = snd e
      in case od_physics objectData of
           None \<Rightarrow> s
         | Some physics \<Rightarrow>
             if \<not> pc_enabled physics then s
             else (case objs s uuid of
                     None \<Rightarrow> s
                   | Some threeObject \<Rightarrow>
                       if otype threeObject = ''Mesh'' then
                         (let s1 = (case getBody s uuid of
                                      Some hadBody \<Rightarrow> removeBody uuid s
                                    | None \<Rightarrow> s)
                          in case objs s1 uuid of
                               None \<Rightarrow> s1
                             | Some obj \<Rightarrow> s1\<lparr>objs := (objs s1)(uuid \<mapsto> reset_transform obj)\<rparr>)
                       else s))"

definition stop :: "'a app_scheme \<Rightarrow> 'a app_scheme" where
  "stop s =
     (let s1 = s\<lparr>isPlaying := False, isPaused := False\<rparr>
      in if sceneStoreRef s1 \<and> scene s1
         then fold stop_object (objects s1) (setEnabled False s1)
         else s1)"

text \<open>
  The states \<open>play\<close> passes through, one after each write to a store: after the
  suppression flag is set, after each object of the loop, after the flag is cleared,
  after the safeguard, after the simulation is enabled, and after \<open>isPlaying\<close> is set.
\<close>

fun scan :: "('b \<Rightarrow> 'a \<Rightarrow> 'a) \<Rightarrow> 'b list \<Rightarrow> 'a \<Rightarrow> 'a list" where
  "scan f [] s = []"
| "scan f (x # xs) s = f x s # scan f xs (f x s)"

definition play_trace :: "'a app_scheme \<Rightarrow> 'a app_scheme list" where
  "play_trace s =
     (if sceneStoreRef s then
        (let s1 = setSuppressCollisionFrameUpdates True s
         in if scene s1 then
              (let s2 = fold play_object (objects s1) s1;
                   s3 = setSuppressCollisionFrameUpdates False s2;
                   s4 = activateAllPhysicsBodies s3;
                   s5 = setEnabled True s4
               in [s1] @ scan play_object (objects s1) s1
                  @ [s3, s4, s5, s5\<lparr>isPlaying := True, isPaused := False\<rparr>])
            else [s1])
      else [])"

text \<open>\<open>updatePhysicsProperties\<close> of the scene store (the inspector's path).\<close>

definition requestedType :: "physics_config \<Rightarrow> 'a three_object_scheme \<Rightarrow> string" where
  "requestedType physicsProps object =
     (let t = (if truthy (pc_autoCreate physicsProps) then the (pc_autoCreate physicsProps)
               else if pc_useCollisionMesh physicsProps then ''trimesh''
               else str_or (pc_bodyType physicsProps) ''box'')
      in if hasSkinned object \<and> t = ''trimesh'' then ''convex'' else t)"

definition collisionSource :: "'a app_scheme \<Rightarrow> string \<Rightarrow> physics_config \<Rightarrow> geometry option" where
  "collisionSource s objectId physicsProps =
     (case map_of (objects s) objectId of
        None \<Rightarrow> None
      | Some objectData \<Rightarrow>
          (case od_collisionMesh objectData of
             None \<Rightarrow> None
           | Some m \<Rightarrow>
               if pc_useCollisionMesh physicsProps \<and> m \<noteq> []
               then (case objs s m of None \<Rightarrow> None | Some src \<Rightarrow> ogeometry src)
               else None))"

definition update_options ::
  "'a app_scheme \<Rightarrow> string \<Rightarrow> physics_config \<Rightarrow> 'b three_object_scheme \<Rightarrow> body_options" where
  "update_options s objectId physicsProps object =
     no_options\<lparr> opt_type := Some (requestedType physicsProps object),
       opt_mass := Some (case pc_mass physicsProps of None \<Rightarrow> 1 | Some m \<Rightarrow> m),
       opt_size := Some (case pc_size physicsProps of None \<Rightarrow> Vec3 1 1 1 | Some sz \<Rightarrow> sz),
       opt_isTrigger := pc_isTrigger physicsProps,
       opt_isStatic := pc_isStatic physicsProps,
       opt_collisionMesh := collisionSource s objectId physicsProps \<rparr>"

definition stored_physics :: "physics_config \<Rightarrow> physics_config" where
  "stored_physics physicsProps =
     \<lparr> pc_enabled = pc_enabled physicsProps,
       pc_bodyType = Some (str_or (pc_bodyType physicsProps) ''box''),
       pc_mass = Some (case pc_mass physicsProps of None \<Rightarrow> 1 | Some m \<Rightarrow> m),
       pc_size = Some (case pc_size physicsProps of None \<Rightarrow> Vec3 1 1 1 | Some sz \<Rightarrow> sz),
       pc_isTrigger = pc_isTrigger physicsProps,
       pc_isStatic = pc_isStatic physicsProps,
       pc_useCollisionMesh = pc_useCollisionMesh physicsProps,
       pc_autoCreate = (if truthy (pc_autoCreate physicsProps) then pc_autoCreate physicsProps
                        else None) \<rparr>"

definition no_object_data :: object_data where
  "no_object_data = \<lparr> od_physics = None, od_isPlayer = False, od_collisionFrames = None,
     od_collisionMesh = None \<rparr>"

definition updatePhysicsProperties ::
  "string \<Rightarrow> physics_config \<Rightarrow> 'a app_scheme \<Rightarrow> 'a app_scheme" where
  "updatePhysicsProperties objectId physicsProps s =
     (if \<not> scene s then s
      else case objs s objectId of
             None \<Rightarrow> s
           | Some object \<Rightarrow>
               (let existingBody = getBody s objectId;
                    bodyOptions = update_options s objectId physicsProps object;
                    s1 = (if pc_enabled physicsProps \<and> existingBody = None
                          then addBody objectId bodyOptions s
                          else if \<not> pc_enabled physicsProps \<and> existingBody \<noteq> None
                          then removeBody objectId s
                          else if existingBody \<noteq> None \<and> pc_enabled physicsProps
                          then addBody objectId bodyOptions (removeBody objectId s)
                          else s);
                    objectData = (case map_of (objects s) objectId of
                                    None \<Rightarrow> no_object_data | Some d \<Rightarrow> d)
                in s1\<lparr>objects := AList.update objectId
                         (objectData\<lparr>od_physics := Some (stored_physics physicsProps)\<rparr>)
                         (objects s)\<rparr>))"

section \<open>The render loop's physics step and the character controller\<close>

text \<open>The physics part of the viewport's \<open>animate\<close> loop: the clamped step, taken while
  the session is playing and the simulation is enabled.\<close>

definition animate_physics ::
  "(real \<Rightarrow> nat list \<Rightarrow> (nat \<rightharpoonup> body) \<Rightarrow> (nat \<rightharpoonup> body)) \<Rightarrow> real \<Rightarrow> 'a app_scheme
     \<Rightarrow> 'a app_scheme" where
  "animate_physics sim delta s =
     (if isPlaying s then
        (let deltaTime = (if delta = 0 then 1 / 60 else delta);
             clampedDeltaTime = min deltaTime (1 / 30)
         in if enabled s then step sim clampedDeltaTime s else s)
      else s)"



text \<open>\<open>findPlayer\<close>: the first object, in the order \<open>scene.traverse\<close> visits the uuids,
  whose name contains \<open>droide\<close> or \<open>soldier\<close>.\<close>

definition is_player_name :: "string \<Rightarrow> bool" where
  "is_player_name n =
     (n \<noteq> [] \<and> (str_includes (toLowerCase n) ''droide'' \<or> str_includes (toLowerCase n) ''soldier''))"

definition findPlayer :: "string list \<Rightarrow> 'a app_scheme \<Rightarrow> string option" where
  "findPlayer order s =
     (if \<not> scene s then None
      else find (\<lambda>u. case objs s u of None \<Rightarrow> False | Some child \<Rightarrow> is_player_name (name child))
                order)"









section \<open>Initial states and example scenes\<close>

text \<open>The state after the constructors: an empty physics world over the objects of the
  scene, the play store in edit mode.  The default material is created with the
  simulator's defaults.\<close>

definition initial_app :: "(string \<rightharpoonup> three_object) \<Rightarrow> (string \<times> object_data) list \<Rightarrow> app" where
  "initial_app os ds =
     \<lparr> objs = os, world = [], bodies = [], enabled = False, store = Map.empty, fresh = 0,
       material_friction = -1, material_restitution = -1,
       sceneStoreRef = True, scene = True, objects = ds,
       isPlaying = False, isPaused = False, suppressCollisionFrameUpdates = False \<rparr>"

text \<open>An object without geometry below it, at a position, one unit wide.\<close>

definition plain_object :: "string \<Rightarrow> string \<Rightarrow> bool \<Rightarrow> vec3 \<Rightarrow> three_object" where
  "plain_object n t m p =
     \<lparr> name = n, otype = t, isMesh = m, isSkinnedMesh = False, isCamera = False,
       position = p,
       orientation = FromEuler (Vec3 0 0 0), worldScale = Vec3 1 1 1,
       bbox_min = Vec3 (vx p - 0.5) (vy p - 0.5) (vz p - 0.5),
       bbox_max = Vec3 (vx p + 0.5) (vy p + 0.5) (vz p + 0.5),
       ogeometry = None, children = [], physicsBody = None,
       originalPosition = None, originalRotation = None, ud_velocity = None \<rparr>"

definition physics_on :: physics_config where
  "physics_on = \<lparr> pc_enabled = True, pc_bodyType = Some ''box'', pc_mass = Some 1,
     pc_size = Some (Vec3 1 1 1), pc_isTrigger = False, pc_isStatic = False,
     pc_useCollisionMesh = False, pc_autoCreate = None \<rparr>"

definition data_with :: "physics_config \<Rightarrow> object_data" where
  "data_with pc = \<lparr> od_physics = Some pc, od_isPlayer = False, od_collisionFrames = None,
     od_collisionMesh = None \<rparr>"

text \<open>Two simulators to run the examples with: one that leaves every body where it is,
  and one that lowers every body of the world by \<open>d\<close> in a step.\<close>

definition still_sim :: "real \<Rightarrow> nat list \<Rightarrow> (nat \<rightharpoonup> body) \<Rightarrow> (nat \<rightharpoonup> body)" where
  "still_sim dt w st = st"

definition lower_body :: "real \<Rightarrow> body \<Rightarrow> body" where
  "lower_body d b = b\<lparr>bposition := Vec3 (vx (bposition b)) (vy (bposition b) - d) (vz (bposition b))\<rparr>"

definition falling_sim :: "real \<Rightarrow> real \<Rightarrow> nat list \<Rightarrow> (nat \<rightharpoonup> body) \<Rightarrow> (nat \<rightharpoonup> body)" where
  "falling_sim d dt w st = (\<lambda>r. if r \<in> set w then map_option (lower_body d) (st r) else st r)"

text \<open>A cube with physics switched on in the inspector's defaults: no collision frames,
  no \<open>autoCreate\<close>.\<close>

definition cube_scene :: app where
  "cube_scene =
     initial_app [''cube-1'' \<mapsto> plain_object ''Cube_1'' ''Mesh'' True (Vec3 0 5 0)]
       [(''cube-1'', data_with physics_on)]"



text \<open>A group (a loaded model's root) with physics on and \<open>autoCreate\<close> requested.\<close>

definition group_scene :: app where
  "group_scene =
     initial_app [''grp-1'' \<mapsto> plain_object ''Armour_1'' ''Group'' False (Vec3 0 5 0)]
       [(''grp-1'', data_with (physics_on\<lparr>pc_autoCreate := Some ''convex''\<rparr>))]"

text \<open>Two more simulators: one that turns every body of the world to the orientation
  \<open>q\<close> and leaves it in place, one that moves every body by its velocity.\<close>

definition turning_sim :: "quat \<Rightarrow> real \<Rightarrow> nat list \<Rightarrow> (nat \<rightharpoonup> body) \<Rightarrow> (nat \<rightharpoonup> body)" where
  "turning_sim q dt w st =
     (\<lambda>r. if r \<in> set w then map_option (\<lambda>b. b\<lparr>bquaternion := q\<rparr>) (st r) else st r)"

definition move_body :: "real \<Rightarrow> body \<Rightarrow> body" where
  "move_body dt b =
     b\<lparr>bposition := Vec3 (vx (bposition b) + vx (velocity b) * dt)
                         (vy (bposition b) + vy (velocity b) * dt)
                         (vz (bposition b) + vz (velocity b) * dt)\<rparr>"

definition moving_sim :: "real \<Rightarrow> nat list \<Rightarrow> (nat \<rightharpoonup> body) \<Rightarrow> (nat \<rightharpoonup> body)" where
  "moving_sim dt w st = (\<lambda>r. if r \<in> set w then map_option (move_body dt) (st r) else st r)"

text \<open>The cube with a default body, the simulation enabled.\<close>

definition cube_object :: three_object where
  "cube_object = (plain_object ''Cube_1'' ''Mesh'' True (Vec3 0 5 0))\<lparr>physicsBody := Some 0\<rparr>"

definition cube_body :: body where
  "cube_body = build_body ''cube-1'' (plain_object ''Cube_1'' ''Mesh'' True (Vec3 0 5 0)) no_options"

definition cube_playing :: app where
  "cube_playing = (addBody ''cube-1'' no_options cube_scene)\<lparr>enabled := True\<rparr>"

text \<open>A trigger platform and a player character (a mesh named \<open>Soldier\<close>, with
  \<open>autoCreate\<close> requested); after \<open>play\<close> the platform is given a velocity.\<close>

definition platform_scene :: app where
  "platform_scene =
     initial_app [''plat-1'' \<mapsto> plain_object ''Platform_1'' ''Mesh'' True (Vec3 0 0 0),
                  ''hero-1'' \<mapsto> plain_object ''Soldier'' ''Mesh'' True (Vec3 0 5 0)]
       [(''plat-1'', data_with (physics_on\<lparr>pc_bodyType := Some ''platform''\<rparr>)),
        (''hero-1'', (data_with (physics_on\<lparr>pc_autoCreate := Some ''convex''\<rparr>))
                       \<lparr>od_isPlayer := True\<rparr>)]"

definition platform_playing :: app where
  "platform_playing = setVelocity ''plat-1'' (Vec3 3 0 0) (play platform_scene)"

definition hero_object :: three_object where
  "hero_object =
     (plain_object ''Soldier'' ''Mesh'' True (Vec3 0 5 0))
       \<lparr> physicsBody := Some 0, originalPosition := Some (Vec3 0 5 0),
         originalRotation := Some (Vec3 0 0 0) \<rparr>"

definition hero_body :: body where
  "hero_body =
     build_body ''hero-1'' hero_object
       (no_options\<lparr> opt_type := Some ''capsule'', opt_mass := Some 1,
          opt_size := Some (Vec3 0.45 0.9 0.45), opt_radius := Some 0.45,
          opt_height := Some 0.9, opt_offset := Some (Vec3 0 0.45 0),
          opt_isCharacter := True \<rparr>)"

definition platform_object :: three_object where
  "platform_object =
     (plain_object ''Platform_1'' ''Mesh'' True (Vec3 0 0 0))
       \<lparr> physicsBody := Some 1, originalPosition := Some (Vec3 0 0 0),
         originalRotation := Some (Vec3 0 0 0) \<rparr>"

definition platform_body :: body where
  "platform_body =
     (build_body ''plat-1'' platform_object
        (no_options\<lparr> opt_type := Some ''platform'', opt_mass := Some 1,
           opt_size := Some (Vec3 1 1 1) \<rparr>))\<lparr>velocity := Vec3 3 0 0\<rparr>"






text \<open>The cube configured static, and the cube configured dynamic with mass 0.\<close>

definition static_cube_scene :: app where
  "static_cube_scene =
     initial_app [''cube-1'' \<mapsto> plain_object ''Cube_1'' ''Mesh'' True (Vec3 0 5 0)]
       [(''cube-1'', data_with (physics_on\<lparr>pc_isStatic := True, pc_mass := Some 0\<rparr>))]"

definition massless :: physics_config where
  "massless = physics_on\<lparr>pc_mass := Some 0\<rparr>"

text \<open>The vertices three.js generates: for \<open>BoxGeometry(1, 1, 1)\<close> each corner three
  times, once for each face it lies on (24 vertices); for
  \<open>SphereGeometry(radius, widthSegments, heightSegments)\<close> one vertex for each pair of a
  ring and a segment boundary.\<close>

definition unit_cube_vertices :: "vec3 list" where
  "unit_cube_vertices =
     concat (map (\<lambda>a. concat (map (\<lambda>b. concat (map (\<lambda>c. [Vec3 a b c, Vec3 a b c, Vec3 a b c])
                                                  [- 0.5, 0.5])) [- 0.5, 0.5])) [- 0.5, 0.5])"

definition sphere_vertices :: "real \<Rightarrow> nat \<Rightarrow> nat \<Rightarrow> vec3 list" where
  "sphere_vertices radius widthSegments heightSegments =
     concat (map (\<lambda>iy.
       map (\<lambda>ix.
         (let v = real iy / real heightSegments; u = real ix / real widthSegments
          in Vec3 (- radius * cos (u * (2 * pi)) * sin (v * pi))
                  (radius * cos (v * pi))
                  (radius * sin (u * (2 * pi)) * sin (v * pi))))
         [0 ..< widthSegments + 1])
       [0 ..< heightSegments + 1])"

definition mesh_object :: "string \<Rightarrow> vec3 list \<Rightarrow> real \<Rightarrow> three_object" where
  "mesh_object n vs half =
     (plain_object n ''Mesh'' True (Vec3 0 0 0))
       \<lparr> bbox_min := Vec3 (- half) (- half) (- half), bbox_max := Vec3 half half half,
         ogeometry := Some \<lparr> positions = vs, index = None, convexGeo = Some None \<rparr> \<rparr>"

definition unit_cube_object :: three_object where
  "unit_cube_object = mesh_object ''Cube_1'' unit_cube_vertices 0.5"

definition unit_sphere_object :: three_object where
  "unit_sphere_object = mesh_object ''Sphere_1'' (sphere_vertices 1 32 16) 1"

text \<open>A mesh of 600 vertices that all coincide.\<close>

definition rock_object :: three_object where
  "rock_object = mesh_object ''Rock_1'' (replicate 600 (Vec3 0 0 0)) 1"












section \<open>Evaluating the examples\<close>

lemmas body_defs = build_body_def no_options_def Let_def opt_type_of_def opt_mass_of_def
  isPlatform_of_def isSolidPlatform_of_def new_body_def make_shape_def opt_size_of_def half_box_def
  isGroundObject_def toLowerCase_def toLowerCase_char_def has_frames_def setFromEuler_def
  quat_identity_def no_userData_def num_or_def vec_add_def

lemmas scene_defs = initial_app_def plain_object_def physics_on_def data_with_def

lemmas play_defs = play_def play_object_def activateAllPhysicsBodies_def activate_object_def
  setSuppressCollisionFrameUpdates_def setEnabled_def store_original_def hasManualFrames_def
  truthy_def str_or_def addBody_def removeBody_def getBody_def compound_options_def
  mesh_auto_options_def group_auto_options_def activate_options_def play_mass_def detect_shape_def
  autoDetectCharacterCollision_def autoDetectCollisionShape_def meshes_of_def as_node_def
  hasSkinned_def getSize_def getCenter_def box_isEmpty_def

lemma distanceTo_gt_iff:
  assumes "0 \<le> c"
  shows "(c < distanceTo a b) =
         (c * c < (vx a - vx b) * (vx a - vx b) + (vy a - vy b) * (vy a - vy b)
                  + (vz a - vz b) * (vz a - vz b))"
proof -
  have "c = sqrt (c * c)" using assms by simp
  then have "(c < distanceTo a b) = (sqrt (c * c) < distanceTo a b)" by simp
  also have "\<dots> = (c * c < (vx a - vx b) * (vx a - vx b) + (vy a - vy b) * (vy a - vy b)
                  + (vz a - vz b) * (vz a - vz b))"
    unfolding distanceTo_def by (rule real_sqrt_less_iff)
  finally show ?thesis .
qed

lemma distanceTo_gt_epsilon:
  "(1 / 10 ^ 3 < distanceTo a b) =
     (1 / 10 ^ 6 < (vx a - vx b) * (vx a - vx b) + (vy a - vy b) * (vy a - vy b)
                   + (vz a - vz b) * (vz a - vz b))"
  "(1 < distanceTo a b * 1000) =
     (1 / 10 ^ 6 < (vx a - vx b) * (vx a - vx b) + (vy a - vy b) * (vy a - vy b)
                   + (vz a - vz b) * (vz a - vz b))"
proof -
  show "(1 / 10 ^ 3 < distanceTo a b) =
     (1 / 10 ^ 6 < (vx a - vx b) * (vx a - vx b) + (vy a - vy b) * (vy a - vy b)
                   + (vz a - vz b) * (vz a - vz b))"
    using distanceTo_gt_iff [of "1 / 10 ^ 3" a b] by simp
  then show "(1 < distanceTo a b * 1000) =
     (1 / 10 ^ 6 < (vx a - vx b) * (vx a - vx b) + (vy a - vy b) * (vy a - vy b)
                   + (vz a - vz b) * (vz a - vz b))"
    by simp
qed

lemma distanceTo_self [simp]: "distanceTo a a = 0"
  by (simp add: distanceTo_def)


section \<open>The simulation step\<close>

lemma sync_entry_frame [simp]:
  "store (sync_entry e s) = store s" "bodies (sync_entry e s) = bodies s"
  "world (sync_entry e s) = world s" "enabled (sync_entry e s) = enabled s"
  by (simp_all add: sync_entry_def Let_def split: option.splits)

lemma sync_entry_objs_other: "fst e \<noteq> u \<Longrightarrow> objs (sync_entry e s) u = objs s u"
  by (simp add: sync_entry_def Let_def split: option.splits)

lemma sync_entry_objs_at:
  "objs (sync_entry (u, r) s) u =
     (case (store s r, objs s u) of
        (Some b, Some obj) \<Rightarrow>
          Some (if btype b \<noteq> STATIC \<and> distanceTo (position obj) (bposition b) > 0.001
                then obj\<lparr>position := bposition b,
                         orientation := FromQuaternion (bquaternion b)\<rparr>
                else obj)
      | _ \<Rightarrow> objs s u)"
  by (simp add: sync_entry_def Let_def split: option.splits)

lemma fold_sync_frame [simp]:
  "store (fold sync_entry es s) = store s" "bodies (fold sync_entry es s) = bodies s"
  "world (fold sync_entry es s) = world s" "enabled (fold sync_entry es s) = enabled s"
  by (induction es arbitrary: s) simp_all

lemma fold_sync_objs_other:
  "u \<notin> fst ` set es \<Longrightarrow> objs (fold sync_entry es s) u = objs s u"
  by (induction es arbitrary: s) (auto simp: sync_entry_objs_other)

text \<open>The registry is a \<open>Map\<close>: its keys are distinct, so the loop of \<open>step\<close> visits each
  object once.\<close>

lemma fold_sync_objs_at:
  "distinct (map fst es) \<Longrightarrow> (u, r) \<in> set es \<Longrightarrow>
   objs (fold sync_entry es s) u = objs (sync_entry (u, r) s) u"
proof (induction es arbitrary: s)
  case Nil
  then show ?case by simp
next
  case (Cons e es)
  show ?case
  proof (cases "e = (u, r)")
    case True
    with Cons.prems have "u \<notin> fst ` set es" by auto
    with True show ?thesis by (simp add: fold_sync_objs_other)
  next
    case False
    with Cons.prems have in_es: "(u, r) \<in> set es" and ne: "fst e \<noteq> u"
      by (auto simp: image_iff)
    from Cons.prems have "distinct (map fst es)" by simp
    from Cons.IH [OF this in_es]
    have "objs (fold sync_entry es (sync_entry e s)) u
            = objs (sync_entry (u, r) (sync_entry e s)) u" .
    also have "\<dots> = objs (sync_entry (u, r) s) u"
      by (simp add: sync_entry_objs_at sync_entry_objs_other [OF ne] split: option.splits)
    finally show ?thesis by simp
  qed
qed

lemma step_objs_registered:
  assumes "distinct (map fst (bodies s))" and "(u, r) \<in> set (bodies s)" and "enabled s"
    and "sim dt (world s) (store s) r = Some b" and "objs s u = Some obj"
  shows "objs (step sim dt s) u =
           Some (if btype b \<noteq> STATIC \<and> distanceTo (position obj) (bposition b) > 0.001
                 then obj\<lparr>position := bposition b,
                          orientation := FromQuaternion (bquaternion b)\<rparr>
                 else obj)"
  using assms by (simp add: step_def fold_sync_objs_at sync_entry_objs_at)

lemma step_disabled: "\<not> enabled s \<Longrightarrow> step sim dt s = s"
  by (simp add: step_def)

lemma cube_playing_eval:
  "bodies cube_playing = [(''cube-1'', 0)]" "world cube_playing = [0]"
  "objs cube_playing ''cube-1'' = Some cube_object" "store cube_playing 0 = Some cube_body"
  "enabled cube_playing"
  by (simp_all add: cube_playing_def cube_object_def cube_body_def addBody_def cube_scene_def
        initial_app_def Let_def)

lemma cube_body_eval:
  "btype cube_body = DYNAMIC" "bposition cube_body = Vec3 0 5 0" "mass cube_body = 1"
  "bquaternion cube_body = Quaternion 0 0 0 1"
  by (simp_all add: cube_body_def body_defs plain_object_def)

lemma cube_object_eval:
  "position cube_object = Vec3 0 5 0" "orientation cube_object = FromEuler (Vec3 0 0 0)"
  by (simp_all add: cube_object_def plain_object_def)

text \<open>
  Claim C10.  In \<open>step\<close>, the transform of a registered body is written to its visual
  object only when the simulation is enabled, the body is not static and the distance
  between the body's position and the object's position exceeds 0.001; position and
  orientation are then written together; and when the distance is at most 0.001 the
  object is left as it was, whatever the body's orientation has become.
\<close>

theorem step_epsilon_gate:
  assumes "distinct (map fst (bodies s))" and "(u, r) \<in> set (bodies s)"
    and "objs s u = Some obj" and "sim dt (world s) (store s) r = Some b"
  shows "(objs (step sim dt s) u \<noteq> Some obj \<longrightarrow>
            enabled s \<and> btype b \<noteq> STATIC \<and> distanceTo (position obj) (bposition b) > 0.001)
       \<and> (enabled s \<and> btype b \<noteq> STATIC \<and> distanceTo (position obj) (bposition b) > 0.001 \<longrightarrow>
            objs (step sim dt s) u
              = Some (obj\<lparr>position := bposition b,
                          orientation := FromQuaternion (bquaternion b)\<rparr>))
       \<and> (distanceTo (position obj) (bposition b) \<le> 0.001 \<longrightarrow>
            objs (step sim dt s) u = Some obj)"
proof (cases "enabled s")
  case True
  from step_objs_registered [of s u r sim dt b obj, OF assms(1,2) True assms(4,3)] True
  show ?thesis by auto
next
  case False
  with assms(3) show ?thesis by (simp add: step_disabled)
qed

text \<open>The cube's body is turned upside down by the simulator and stays in place: the
  hypotheses hold and the cube keeps its orientation.\<close>

theorem step_epsilon_gate_witness:
  "distinct (map fst (bodies cube_playing))
   \<and> (''cube-1'', 0) \<in> set (bodies cube_playing)
   \<and> objs cube_playing ''cube-1'' = Some cube_object
   \<and> turning_sim (Quaternion 1 0 0 0) (1 / 60) (world cube_playing) (store cube_playing) 0
       = Some (cube_body\<lparr>bquaternion := Quaternion 1 0 0 0\<rparr>)
   \<and> bquaternion (cube_body\<lparr>bquaternion := Quaternion 1 0 0 0\<rparr>)
       \<noteq> quaternion_of (orientation cube_object)
   \<and> objs (step (turning_sim (Quaternion 1 0 0 0)) (1 / 60) cube_playing) ''cube-1''
       = Some cube_object"
proof -
  have h1: "distinct (map fst (bodies cube_playing))"
    and h2: "(''cube-1'', 0) \<in> set (bodies cube_playing)"
    and h3: "objs cube_playing ''cube-1'' = Some cube_object"
    and h4: "turning_sim (Quaternion 1 0 0 0) (1 / 60) (world cube_playing) (store cube_playing) 0
               = Some (cube_body\<lparr>bquaternion := Quaternion 1 0 0 0\<rparr>)"
    by (simp_all add: cube_playing_eval turning_sim_def)
  have h5: "bquaternion (cube_body\<lparr>bquaternion := Quaternion 1 0 0 0\<rparr>)
              \<noteq> quaternion_of (orientation cube_object)"
    by (simp add: cube_object_eval setFromEuler_def)
  have "distanceTo (position cube_object)
          (bposition (cube_body\<lparr>bquaternion := Quaternion 1 0 0 0\<rparr>)) \<le> 0.001"
    by (simp add: cube_object_eval cube_body_eval)
  with step_epsilon_gate [of cube_playing "''cube-1''" 0 cube_object
         "turning_sim (Quaternion 1 0 0 0)" "1 / 60"
         "cube_body\<lparr>bquaternion := Quaternion 1 0 0 0\<rparr>", OF h1 h2 h3 h4]
  have "objs (step (turning_sim (Quaternion 1 0 0 0)) (1 / 60) cube_playing) ''cube-1''
          = Some cube_object"
    by blast
  with h1 h2 h3 h4 h5 show ?thesis by blast
qed

lemma platform_playing_eval:
  "bodies platform_playing = [(''hero-1'', 0), (''plat-1'', Suc 0)]"
  "world platform_playing = [0, Suc 0]"
  "objs platform_playing ''hero-1'' = Some hero_object"
  "objs platform_playing ''plat-1'' = Some platform_object"
  "store platform_playing 0 = Some hero_body"
  "store platform_playing (Suc 0) = Some platform_body"
  "enabled platform_playing" "isPlaying platform_playing" "scene platform_playing"
  by (simp_all add: platform_playing_def platform_scene_def setVelocity_def hero_object_def
        hero_body_def platform_object_def platform_body_def scene_defs play_defs body_defs)

lemma hero_eval:
  "position hero_object = Vec3 0 5 0" "name hero_object = ''Soldier''"
  "physicsBody hero_object = Some 0"
  "btype hero_body = DYNAMIC" "bposition hero_body = Vec3 0 (109 / 20) 0"
  "velocity hero_body = Vec3 0 0 0"
  "ud_offset (userData hero_body) = Some (Vec3 0 (9 / 20) 0)"
  by (simp_all add: hero_object_def hero_body_def plain_object_def body_defs)

lemma platform_eval:
  "position platform_object = Vec3 0 0 0"
  "btype platform_body = KINEMATIC" "bposition platform_body = Vec3 0 0 0"
  "velocity platform_body = Vec3 3 0 0"
  by (simp_all add: platform_object_def platform_body_def plain_object_def body_defs)

lemma soldier_is_player: "is_player_name ''Soldier''"
  by (simp add: is_player_name_def toLowerCase_def toLowerCase_char_def)

text \<open>
  Claim C7, as stated, fails.  After \<open>play\<close> on a scene with a trigger platform and a
  player character, and once the platform has a velocity, one \<open>step\<close> writes the position
  of the platform's KINEMATIC body onto the platform, and the position of the character's
  DYNAMIC body (the capsule centre, above the feet) onto the character that
  \<open>findPlayer\<close> hands to the controller.
\<close>

theorem step_copies_kinematic_and_player_counterexample:
  "map_option btype (store platform_playing 1) = Some KINEMATIC
   \<and> map_option position (objs platform_playing ''plat-1'') = Some (Vec3 0 0 0)
   \<and> map_option position (objs (step moving_sim (1 / 60) platform_playing) ''plat-1'')
       = Some (Vec3 (1 / 20) 0 0)
   \<and> findPlayer [''plat-1'', ''hero-1''] platform_playing = Some ''hero-1''
   \<and> map_option physicsBody (objs platform_playing ''hero-1'') = Some (Some 0)
   \<and> map_option position (objs platform_playing ''hero-1'') = Some (Vec3 0 5 0)
   \<and> map_option position (objs (step moving_sim (1 / 60) platform_playing) ''hero-1'')
       = Some (Vec3 0 (109 / 20) 0)"
proof -
  have d: "distinct (map fst (bodies platform_playing))"
    by (simp add: platform_playing_eval)
  have sim_hero: "moving_sim (1 / 60) (world platform_playing) (store platform_playing) 0
                    = Some hero_body"
    by (simp add: moving_sim_def move_body_def platform_playing_eval hero_eval)
  have sim_plat: "moving_sim (1 / 60) (world platform_playing) (store platform_playing) 1
                    = Some (move_body (1 / 60) platform_body)"
    by (simp add: moving_sim_def platform_playing_eval)
  have plat: "map_option position (objs (step moving_sim (1 / 60) platform_playing) ''plat-1'')
                = Some (Vec3 (1 / 20) 0 0)"
    using step_objs_registered [of platform_playing "''plat-1''" 1 moving_sim "1 / 60"
            "move_body (1 / 60) platform_body" platform_object, OF d _ _ sim_plat]
    by (simp add: platform_playing_eval platform_eval move_body_def distanceTo_gt_epsilon)
  have hero: "map_option position (objs (step moving_sim (1 / 60) platform_playing) ''hero-1'')
                = Some (Vec3 0 (109 / 20) 0)"
    using step_objs_registered [of platform_playing "''hero-1''" 0 moving_sim "1 / 60"
            hero_body hero_object, OF d _ _ sim_hero]
    by (simp add: platform_playing_eval hero_eval distanceTo_gt_epsilon)
  have player: "findPlayer [''plat-1'', ''hero-1''] platform_playing = Some ''hero-1''"
    by (simp add: findPlayer_def platform_playing_eval hero_object_def platform_object_def
          plain_object_def is_player_name_def toLowerCase_def toLowerCase_char_def)
  show ?thesis
    using plat hero player
    by (simp add: platform_playing_eval platform_eval hero_eval)
qed

text \<open>
  Claim C7, amended.  After the simulator's step, \<open>step\<close> never writes the transform of
  a STATIC body onto its visual object, and it writes position and orientation of every
  DYNAMIC body that is further than 0.001 from its object; the object the character
  controller drives is no exception.
\<close>

theorem step_sync_by_kind:
  assumes "distinct (map fst (bodies s))" and "(u, r) \<in> set (bodies s)"
    and "objs s u = Some obj" and "sim dt (world s) (store s) r = Some b"
  shows "(btype b = STATIC \<longrightarrow> objs (step sim dt s) u = Some obj)
       \<and> (enabled s \<and> btype b = DYNAMIC \<and> distanceTo (position obj) (bposition b) > 0.001 \<longrightarrow>
            objs (step sim dt s) u
              = Some (obj\<lparr>position := bposition b,
                          orientation := FromQuaternion (bquaternion b)\<rparr>))
       \<and> (is_player_name (name obj) \<and> enabled s \<and> btype b = DYNAMIC
            \<and> distanceTo (position obj) (bposition b) > 0.001 \<longrightarrow>
            objs (step sim dt s) u
              = Some (obj\<lparr>position := bposition b,
                          orientation := FromQuaternion (bquaternion b)\<rparr>))"
proof (cases "enabled s")
  case True
  from step_objs_registered [of s u r sim dt b obj, OF assms(1,2) True assms(4,3)]
  show ?thesis by auto
next
  case False
  with assms(3) show ?thesis by (simp add: step_disabled)
qed

theorem step_sync_by_kind_witness:
  "distinct (map fst (bodies platform_playing))
   \<and> (''hero-1'', 0) \<in> set (bodies platform_playing)
   \<and> objs platform_playing ''hero-1'' = Some hero_object
   \<and> moving_sim (1 / 60) (world platform_playing) (store platform_playing) 0 = Some hero_body
   \<and> is_player_name (name hero_object) \<and> enabled platform_playing \<and> btype hero_body = DYNAMIC
   \<and> distanceTo (position hero_object) (bposition hero_body) > 0.001
   \<and> objs (step moving_sim (1 / 60) platform_playing) ''hero-1''
       = Some (hero_object\<lparr>position := bposition hero_body,
                           orientation := FromQuaternion (bquaternion hero_body)\<rparr>)"
proof -
  have h1: "distinct (map fst (bodies platform_playing))"
    and h2: "(''hero-1'', 0) \<in> set (bodies platform_playing)"
    and h3: "objs platform_playing ''hero-1'' = Some hero_object"
    and h4: "moving_sim (1 / 60) (world platform_playing) (store platform_playing) 0
               = Some hero_body"
    by (simp_all add: moving_sim_def move_body_def platform_playing_eval hero_eval)
  have h5: "is_player_name (name hero_object) \<and> enabled platform_playing
              \<and> btype hero_body = DYNAMIC
              \<and> distanceTo (position hero_object) (bposition hero_body) > 0.001"
    by (simp add: hero_eval soldier_is_player platform_playing_eval distanceTo_gt_epsilon)
  with step_sync_by_kind [of platform_playing "''hero-1''" 0 hero_object moving_sim "1 / 60"
         hero_body, OF h1 h2 h3 h4]
  have "objs (step moving_sim (1 / 60) platform_playing) ''hero-1''
          = Some (hero_object\<lparr>position := bposition hero_body,
                              orientation := FromQuaternion (bquaternion hero_body)\<rparr>)"
    by blast
  with h1 h2 h3 h4 h5 show ?thesis by blast
qed

section \<open>The body registry\<close>

lemma addBody_eval:
  assumes "objs s u = Some obj"
  shows "world (addBody u opts s) = world s @ [fresh s]"
    and "bodies (addBody u opts s) = AList.update u (fresh s) (bodies s)"
    and "store (addBody u opts s) = (store s)(fresh s \<mapsto> build_body u obj opts)"
    and "objs (addBody u opts s) = (objs s)(u \<mapsto> obj\<lparr>physicsBody := Some (fresh s)\<rparr>)"
    and "fresh (addBody u opts s) = Suc (fresh s)"
  using assms by (simp_all add: addBody_def Let_def)

lemma removeBody_eval:
  assumes "map_of (bodies s) u = Some r" and "objs s u = Some obj"
  shows "world (removeBody u s) = removeAll r (world s)"
    and "bodies (removeBody u s) = AList.delete u (bodies s)"
    and "store (removeBody u s) = store s"
    and "objs (removeBody u s) = (objs s)(u \<mapsto> obj\<lparr>physicsBody := None\<rparr>)"
    and "fresh (removeBody u s) = fresh s"
  using assms by (simp_all add: removeBody_def)

lemma removeBody_none: "map_of (bodies s) u = None \<Longrightarrow> removeBody u s = s"
  by (simp add: removeBody_def)

lemma one_entry:
  "distinct (map fst al) \<Longrightarrow> map_of al k = Some v \<Longrightarrow> length (filter (\<lambda>e. fst e = k) al) = 1"
proof (induction al)
  case Nil
  then show ?case by simp
next
  case (Cons e al)
  show ?case
  proof (cases "fst e = k")
    case True
    with Cons.prems have "k \<notin> fst ` set al" by auto
    then have "filter (\<lambda>e. fst e = k) al = []" by (auto simp: filter_empty_conv)
    with True show ?thesis by simp
  next
    case False
    with Cons show ?thesis by (cases e) auto
  qed
qed

text \<open>The registry keeps its keys distinct, as a \<open>Map\<close> does.\<close>

lemma distinct_bodies_addBody:
  "distinct (map fst (bodies s)) \<Longrightarrow> distinct (map fst (bodies (addBody u opts s)))"
  by (simp add: addBody_def Let_def distinct_update split: option.splits)

lemma distinct_bodies_removeBody:
  "distinct (map fst (bodies s)) \<Longrightarrow> distinct (map fst (bodies (removeBody u s)))"
  by (simp add: removeBody_def distinct_delete split: option.splits)

lemma distinct_bodies_initial: "distinct (map fst (bodies (initial_app os ds)))"
  by (simp add: initial_app_def)

text \<open>
  Claim C1, as stated, fails.  Two \<open>addBody\<close> calls for the cube, with no \<open>removeBody\<close>
  between them, leave both bodies in the simulator's world: the box of the first call and
  the sphere of the second.
\<close>

theorem addBody_twice_world_counterexample:
  "world (addBody ''cube-1'' (no_options\<lparr>opt_type := Some ''sphere''\<rparr>)
            (addBody ''cube-1'' no_options cube_scene)) = [0, 1]
   \<and> map_option shapes
        (store (addBody ''cube-1'' (no_options\<lparr>opt_type := Some ''sphere''\<rparr>)
                 (addBody ''cube-1'' no_options cube_scene)) 0)
       = Some [(Box (Vec3 (1 / 2) (1 / 2) (1 / 2)), Vec3 0 0 0, Quaternion 0 0 0 1)]
   \<and> map_option shapes
        (store (addBody ''cube-1'' (no_options\<lparr>opt_type := Some ''sphere''\<rparr>)
                 (addBody ''cube-1'' no_options cube_scene)) 1)
       = Some [(Sphere (1 / 2), Vec3 0 0 0, Quaternion 0 0 0 1)]"
  by (simp add: addBody_def cube_scene_def scene_defs body_defs)

text \<open>
  Claim C1, amended.  \<open>addBody\<close> does not remove a body the object already has.  After
  \<open>addBody(obj, optsA)\<close> and \<open>addBody(obj, optsB)\<close> the registry holds exactly one entry
  for the object, the body built from \<open>optsB\<close>, and the simulator's world holds both
  bodies, the one built from \<open>optsA\<close> too.  Only with \<open>removeBody(obj)\<close> between the two
  calls, as \<open>play\<close> and \<open>updatePhysicsProperties\<close> do it, is the second body the only one
  of the object in the world.
\<close>

theorem addBody_twice_registry:
  assumes "objs s u = Some obj" and "distinct (map fst (bodies s))"
  shows "map_of (bodies (addBody u optsB (addBody u optsA s))) u = Some (Suc (fresh s))
       \<and> length (filter (\<lambda>e. fst e = u) (bodies (addBody u optsB (addBody u optsA s)))) = 1
       \<and> store (addBody u optsB (addBody u optsA s)) (Suc (fresh s))
           = Some (build_body u (obj\<lparr>physicsBody := Some (fresh s)\<rparr>) optsB)
       \<and> store (addBody u optsB (addBody u optsA s)) (fresh s) = Some (build_body u obj optsA)
       \<and> world (addBody u optsB (addBody u optsA s)) = world s @ [fresh s, Suc (fresh s)]
       \<and> (fresh s \<notin> set (world s) \<longrightarrow>
            world (addBody u optsB (removeBody u (addBody u optsA s)))
              = world s @ [Suc (fresh s)])"
proof -
  let ?s1 = "addBody u optsA s" and ?s2 = "addBody u optsB (addBody u optsA s)"
  have o1: "objs ?s1 u = Some (obj\<lparr>physicsBody := Some (fresh s)\<rparr>)"
    by (simp add: addBody_eval [OF assms(1)])
  have b2: "bodies ?s2 = AList.update u (Suc (fresh s)) (AList.update u (fresh s) (bodies s))"
    by (simp add: addBody_eval [OF o1] addBody_eval [OF assms(1)])
  have m: "map_of (bodies ?s2) u = Some (Suc (fresh s))"
    by (simp add: b2 update_conv')
  have d: "distinct (map fst (bodies ?s2))"
    by (simp add: b2 distinct_update assms(2))
  have st: "store ?s2 = (store s)(fresh s \<mapsto> build_body u obj optsA,
                                    Suc (fresh s) \<mapsto>
                                      build_body u (obj\<lparr>physicsBody := Some (fresh s)\<rparr>) optsB)"
    by (simp add: addBody_eval [OF o1] addBody_eval [OF assms(1)])
  have w: "world ?s2 = world s @ [fresh s, Suc (fresh s)]"
    by (simp add: addBody_eval [OF o1] addBody_eval [OF assms(1)])
  have r: "fresh s \<notin> set (world s) \<Longrightarrow>
           world (addBody u optsB (removeBody u ?s1)) = world s @ [Suc (fresh s)]"
  proof -
    assume nf: "fresh s \<notin> set (world s)"
    have m1: "map_of (bodies ?s1) u = Some (fresh s)"
      by (simp add: addBody_eval [OF assms(1)] update_conv')
    have o2: "objs (removeBody u ?s1) u = Some (obj\<lparr>physicsBody := None\<rparr>)"
      by (simp add: removeBody_eval [OF m1 o1])
    show ?thesis
      using nf
      by (simp add: addBody_eval [OF o2] removeBody_eval [OF m1 o1] addBody_eval [OF assms(1)])
  qed
  from m one_entry [OF d m] st w r show ?thesis by simp
qed

theorem addBody_twice_registry_witness:
  "objs cube_scene ''cube-1'' = Some (plain_object ''Cube_1'' ''Mesh'' True (Vec3 0 5 0))
   \<and> distinct (map fst (bodies cube_scene))
   \<and> fresh cube_scene \<notin> set (world cube_scene)
   \<and> map_of (bodies (addBody ''cube-1'' (no_options\<lparr>opt_type := Some ''sphere''\<rparr>)
                       (addBody ''cube-1'' no_options cube_scene))) ''cube-1'' = Some 1
   \<and> world (addBody ''cube-1'' (no_options\<lparr>opt_type := Some ''sphere''\<rparr>)
              (addBody ''cube-1'' no_options cube_scene)) = [0, 1]
   \<and> world (addBody ''cube-1'' (no_options\<lparr>opt_type := Some ''sphere''\<rparr>)
              (removeBody ''cube-1'' (addBody ''cube-1'' no_options cube_scene))) = [1]"
proof -
  have h1: "objs cube_scene ''cube-1'' = Some (plain_object ''Cube_1'' ''Mesh'' True (Vec3 0 5 0))"
    and h2: "distinct (map fst (bodies cube_scene))"
    and h3: "fresh cube_scene \<notin> set (world cube_scene)"
    and f: "fresh cube_scene = 0" "world cube_scene = []"
    by (simp_all add: cube_scene_def initial_app_def)
  from addBody_twice_registry [OF h1 h2, of "no_options\<lparr>opt_type := Some ''sphere''\<rparr>" no_options]
    h1 h2 h3 f
  show ?thesis by simp
qed

section \<open>Mass and body kind\<close>

lemma build_body_static_mass: "opt_isStatic opts \<Longrightarrow> mass (build_body u obj opts) = 0"
  by (simp add: build_body_def Let_def new_body_def split: option.splits)

lemma play_mass_default:
  "\<not> pc_isStatic physics \<Longrightarrow> pc_mass physics = Some 0 \<or> pc_mass physics = None \<Longrightarrow>
   play_mass physics = 1"
  by (auto simp: play_mass_def num_or_def)

text \<open>
  Claim C6 on the code.  \<open>updatePhysicsProperties\<close> passes the configured mass on with
  \<open>??\<close>, which keeps a 0: for the cube configured dynamic with mass 0 it registers a
  DYNAMIC body of mass 0.  And the safeguard of \<open>play\<close>, \<open>activateAllPhysicsBodies\<close>,
  does not pass \<open>isStatic\<close> on: for the cube configured static it registers a DYNAMIC
  body of mass 1.
\<close>

theorem mass_not_normalised:
  "map_option (\<lambda>b. (mass b, btype b))
     (store (updatePhysicsProperties ''cube-1'' massless cube_scene) 0) = Some (0, DYNAMIC)
   \<and> getBody (updatePhysicsProperties ''cube-1'' massless cube_scene) ''cube-1'' = Some 0
   \<and> map_option (\<lambda>b. (mass b, btype b)) (store (play static_cube_scene) 0)
       = Some (1, DYNAMIC)
   \<and> getBody (play static_cube_scene) ''cube-1'' = Some 0"
  by (simp add: updatePhysicsProperties_def update_options_def requestedType_def
        collisionSource_def stored_physics_def massless_def cube_scene_def static_cube_scene_def
        scene_defs play_defs body_defs traverse.simps)

theorem mass_not_normalised_witness:
  "map_option mass (store (updatePhysicsProperties ''cube-1'' massless cube_scene) 0) = Some 0
   \<and> map_option mass (store (play static_cube_scene) 0) = Some 1"
  using mass_not_normalised by auto

section \<open>Compound bodies\<close>





section \<open>The play session\<close>

text \<open>The physics world never writes the play store's flag.\<close>

lemma isPlaying_addBody [simp]: "isPlaying (addBody u opts s) = isPlaying s"
  by (simp add: addBody_def Let_def split: option.splits)

lemma isPlaying_removeBody [simp]: "isPlaying (removeBody u s) = isPlaying s"
  by (simp add: removeBody_def split: option.splits)

lemma isPlaying_store_original [simp]: "isPlaying (store_original u s) = isPlaying s"
  by (simp add: store_original_def split: option.splits)

lemma isPlaying_play_object [simp]: "isPlaying (play_object e s) = isPlaying s"
  by (simp add: play_object_def Let_def split: option.splits)

lemma isPlaying_activate_object [simp]: "isPlaying (activate_object e s) = isPlaying s"
  by (simp add: activate_object_def Let_def split: option.splits)

lemma isPlaying_fold_activate [simp]: "isPlaying (fold activate_object es s) = isPlaying s"
  by (induction es arbitrary: s) simp_all

lemma isPlaying_fold_play [simp]: "isPlaying (fold play_object es s) = isPlaying s"
  by (induction es arbitrary: s) simp_all

lemma isPlaying_activateAll [simp]: "isPlaying (activateAllPhysicsBodies s) = isPlaying s"
  by (simp add: activateAllPhysicsBodies_def)

lemma isPlaying_setters [simp]:
  "isPlaying (setEnabled e s) = isPlaying s"
  "isPlaying (setSuppressCollisionFrameUpdates f s) = isPlaying s"
  by (simp_all add: setEnabled_def setSuppressCollisionFrameUpdates_def)

lemma isPlaying_scan:
  "t \<in> set (scan play_object es s) \<Longrightarrow> isPlaying t = isPlaying s"
proof (induction es arbitrary: s)
  case Nil
  then show ?case by simp
next
  case (Cons e es)
  from Cons.prems
  have "t = play_object e s \<or> t \<in> set (scan play_object es (play_object e s))" by simp
  then show ?case using Cons.IH [of "play_object e s"] by auto
qed

lemma objects_setSuppress [simp]:
  "objects (setSuppressCollisionFrameUpdates f s) = objects s"
  "scene (setSuppressCollisionFrameUpdates f s) = scene s"
  by (simp_all add: setSuppressCollisionFrameUpdates_def)

text \<open>
  Claim C4.  With the store and the scene available, \<open>play\<close> ends in the last state of
  its trace, where \<open>isPlaying\<close> is true and the simulation is enabled; in every state
  before, \<open>isPlaying\<close> is what it was when \<open>play\<close> was called.  So a state of the trace
  in which the flag has changed is the final state: it holds every body \<open>play\<close> creates,
  registered and in the simulator's world.
\<close>

theorem play_sets_isPlaying_last:
  assumes "sceneStoreRef s" and "scene s"
  shows "play_trace s \<noteq> [] \<and> last (play_trace s) = play s
       \<and> isPlaying (play s) \<and> enabled (play s)
       \<and> (\<forall>t \<in> set (butlast (play_trace s)). isPlaying t = isPlaying s)
       \<and> (\<forall>t \<in> set (play_trace s). isPlaying t \<noteq> isPlaying s \<longrightarrow>
             bodies t = bodies (play s) \<and> world t = world (play s) \<and> store t = store (play s))"
proof -
  let ?s1 = "setSuppressCollisionFrameUpdates True s"
  let ?s2 = "fold play_object (objects ?s1) ?s1"
  let ?s3 = "setSuppressCollisionFrameUpdates False ?s2"
  let ?s4 = "activateAllPhysicsBodies ?s3"
  let ?s5 = "setEnabled True ?s4"
  let ?fin = "?s5\<lparr>isPlaying := True, isPaused := False\<rparr>"
  let ?pre = "[?s1] @ scan play_object (objects ?s1) ?s1 @ [?s3, ?s4, ?s5]"
  have tr: "play_trace s = ?pre @ [?fin]"
    using assms by (simp add: play_trace_def Let_def)
  have pl: "play s = ?fin"
    using assms by (simp add: play_def Let_def)
  have bl: "butlast (play_trace s) = ?pre"
    unfolding tr by (rule butlast_snoc)
  have before: "\<forall>t \<in> set ?pre. isPlaying t = isPlaying s"
    by (auto dest: isPlaying_scan)
  have "\<forall>t \<in> set (play_trace s). isPlaying t \<noteq> isPlaying s \<longrightarrow> t = play s"
  proof (intro ballI impI)
    fix t assume "t \<in> set (play_trace s)" and ch: "isPlaying t \<noteq> isPlaying s"
    then have "t \<in> set ?pre \<or> t = ?fin" unfolding tr by auto
    with before ch show "t = play s" unfolding pl by blast
  qed
  moreover have "isPlaying (play s)" "enabled (play s)"
    unfolding pl by (simp_all add: setEnabled_def)
  moreover have "last (play_trace s) = play s" "play_trace s \<noteq> []"
    unfolding tr pl by simp_all
  ultimately show ?thesis using before bl by auto
qed

theorem play_sets_isPlaying_last_witness:
  "sceneStoreRef platform_scene \<and> scene platform_scene \<and> \<not> isPlaying platform_scene
   \<and> length (play_trace platform_scene) = 7
   \<and> isPlaying (last (play_trace platform_scene))
   \<and> list_all (\<lambda>t. \<not> isPlaying t) (butlast (play_trace platform_scene))"
proof -
  have h1: "sceneStoreRef platform_scene" and h2: "scene platform_scene"
    and h3: "\<not> isPlaying platform_scene"
    by (simp_all add: platform_scene_def initial_app_def)
  have len: "length (play_trace platform_scene) = 7"
    by (simp add: play_trace_def Let_def platform_scene_def initial_app_def
          setSuppressCollisionFrameUpdates_def)
  from play_sets_isPlaying_last [OF h1 h2] h1 h2 h3 len show ?thesis
    by (auto simp: list_all_iff)
qed

lemmas stop_defs = stop_def stop_object_def reset_transform_def

lemmas step_defs = animate_physics_def step_def sync_entry_def falling_sim_def lower_body_def
  distanceTo_gt_epsilon



lemma store_original_frame [simp]:
  "bodies (store_original u' t) = bodies t"
  "store (store_original u' t) = store t"
  "fresh (store_original u' t) = fresh t"
  "world (store_original u' t) = world t"
  by (simp_all add: store_original_def split: option.splits)




lemma addBody_store:
  "n \<le> fresh t \<Longrightarrow> n \<le> fresh (addBody u' opts t)"
  "r < fresh t \<Longrightarrow> store (addBody u' opts t) r = store t r"
  by (simp_all add: addBody_def Let_def split: option.splits)

lemma removeBody_store [simp]:
  "fresh (removeBody u' t) = fresh t"
  "store (removeBody u' t) = store t"
  by (simp_all add: removeBody_def split: option.splits)


lemma activate_object_store:
  "n \<le> fresh t \<Longrightarrow> n \<le> fresh (activate_object e t)"
  "r < fresh t \<Longrightarrow> store (activate_object e t) r = store t r"
  by (simp_all add: activate_object_def Let_def addBody_store split: option.splits)



lemma app_addBody [simp]:
  "objects (addBody u opts s) = objects s" "scene (addBody u opts s) = scene s"
  by (simp_all add: addBody_def Let_def split: option.splits)

lemma app_removeBody [simp]:
  "objects (removeBody u s) = objects s" "scene (removeBody u s) = scene s"
  by (simp_all add: removeBody_def split: option.splits)

lemma app_store_original [simp]:
  "objects (store_original u s) = objects s" "scene (store_original u s) = scene s"
  by (simp_all add: store_original_def split: option.splits)

lemma app_play_object [simp]:
  "objects (play_object e s) = objects s" "scene (play_object e s) = scene s"
  by (simp_all add: play_object_def Let_def split: option.splits)

lemma app_fold_play [simp]:
  "objects (fold play_object es s) = objects s" "scene (fold play_object es s) = scene s"
  by (induction es arbitrary: s) simp_all




lemma fold_activate_fresh: "n \<le> fresh t \<Longrightarrow> n \<le> fresh (fold activate_object es t)"
  by (induction es arbitrary: t) (simp_all add: activate_object_store)








lemma frame_setters [simp]:
  "bodies (setSuppressCollisionFrameUpdates f s) = bodies s"
  "objs (setSuppressCollisionFrameUpdates f s) = objs s"
  "store (setSuppressCollisionFrameUpdates f s) = store s"
  "fresh (setSuppressCollisionFrameUpdates f s) = fresh s"
  "bodies (setEnabled e s) = bodies s"
  "store (setEnabled e s) = store s"
  by (simp_all add: setSuppressCollisionFrameUpdates_def setEnabled_def)




text \<open>
  Claim C2 on the code.  The group has physics enabled and \<open>autoCreate\<close> requested:
  \<open>play\<close> stores its original transform and registers a body for it.  \<open>stop\<close> resets
  only objects whose type is \<open>Mesh\<close>: after \<open>play(); stop();\<close> the registry still holds
  the group's body, after a second round it holds the body of the second \<open>play\<close>, and a
  group that has fallen one unit during play stays where it fell although its original
  position was stored.
\<close>

theorem stop_leaves_group_body:
  "bodies (stop (play group_scene)) = [(''grp-1'', 0)]
   \<and> world (stop (play group_scene)) = [0]
   \<and> bodies (stop (play (stop (play group_scene)))) = [(''grp-1'', 1)]
   \<and> map_option position (objs group_scene ''grp-1'') = Some (Vec3 0 5 0)
   \<and> map_option originalPosition (objs (play group_scene) ''grp-1'') = Some (Some (Vec3 0 5 0))
   \<and> map_option position
        (objs (stop (animate_physics (falling_sim 1) (1 / 60) (play group_scene))) ''grp-1'')
       = Some (Vec3 0 4 0)"
  by (simp add: group_scene_def scene_defs play_defs body_defs stop_defs step_defs traverse.simps)

theorem stop_leaves_group_body_witness:
  "bodies (stop (play group_scene)) \<noteq> []
   \<and> map_option position
        (objs (stop (animate_physics (falling_sim 1) (1 / 60) (play group_scene))) ''grp-1'')
       \<noteq> map_option position (objs group_scene ''grp-1'')"
  using stop_leaves_group_body by auto

section \<open>Shape inference\<close>

lemma length_sphere_vertices:
  "length (sphere_vertices radius w h) = (w + 1) * (h + 1)"
  by (simp add: sphere_vertices_def length_concat comp_def sum_list_triv)

lemma meshes_of_mesh_object:
  "\<not> str_includes n ''wireframe'' \<Longrightarrow>
   meshes_of (mesh_object n vs half)
     = [Node n True False (Some \<lparr> positions = vs, index = None, convexGeo = Some None \<rparr>) []]"
  by (simp add: meshes_of_def as_node_def mesh_object_def plain_object_def)

text \<open>More than 200 vertices: \<open>detectPrimitiveShape\<close> gives up before it looks at them,
  and the vertex count alone decides between convex hull and trimesh.\<close>

lemma detectPrimitiveShape_many: "200 < length (positions g) \<Longrightarrow> detectPrimitiveShape g ws = None"
  by (simp add: detectPrimitiveShape_def Let_def)

lemma autoDetect_many_vertices:
  assumes "meshes_of obj = m # rest" and "ngeometry m = Some g" and "200 < length (positions g)"
  shows "si_type (autoDetectCollisionShape obj)
           = (if length (positions g) < 500 then ''convex'' else ''trimesh'')"
  using assms by (simp add: autoDetectCollisionShape_def Let_def detectPrimitiveShape_many)

lemma unit_cube_is_box:
  "autoDetectCollisionShape unit_cube_object
     = \<lparr> si_type = ''box'', si_size = Some (Vec3 (1 / 2) (1 / 2) (1 / 2)), si_radius = None,
         si_height = None, si_offset = None \<rparr>"
proof -
  have m: "meshes_of unit_cube_object
             = [Node ''Cube_1'' True False
                  (Some \<lparr> positions = unit_cube_vertices, index = None, convexGeo = Some None \<rparr>) []]"
    unfolding unit_cube_object_def by (rule meshes_of_mesh_object) simp
  have sz: "getSize (bbox_min unit_cube_object) (bbox_max unit_cube_object) = Vec3 1 1 1"
    by (simp add: unit_cube_object_def mesh_object_def plain_object_def getSize_def
          box_isEmpty_def)
  have ls: "localSize unit_cube_vertices = Vec3 1 1 1"
    by (simp add: localSize_def unit_cube_vertices_def)
  have bx: "isBox unit_cube_vertices (Vec3 1 1 1)"
    by (simp add: isBox_def isOnFace_def unit_cube_vertices_def)
  have len: "length unit_cube_vertices = 24"
    by (simp add: unit_cube_vertices_def)
  show ?thesis
    by (simp add: autoDetectCollisionShape_def m sz detectPrimitiveShape_def Let_def ls bx len)
qed

text \<open>
  Claim C8, as stated, fails.  The unit sphere with 32 by 16 segments has 561 vertices,
  more than the 200 up to which \<open>detectPrimitiveShape\<close> looks for a primitive: shape
  inference returns a trimesh for it, not a sphere.
\<close>

theorem sphere_32x16_counterexample:
  "length (sphere_vertices 1 32 16) = 561
   \<and> si_type (autoDetectCollisionShape unit_sphere_object) = ''trimesh''
   \<and> si_radius (autoDetectCollisionShape unit_sphere_object) = None"
proof -
  have len: "length (sphere_vertices 1 32 16) = 561"
    by (simp add: length_sphere_vertices)
  have m: "meshes_of unit_sphere_object
             = [Node ''Sphere_1'' True False
                  (Some \<lparr> positions = sphere_vertices 1 32 16, index = None,
                           convexGeo = Some None \<rparr>) []]"
    unfolding unit_sphere_object_def by (rule meshes_of_mesh_object) simp
  have "si_radius (autoDetectCollisionShape unit_sphere_object) = None"
    by (simp add: autoDetectCollisionShape_def m Let_def detectPrimitiveShape_many len)
  moreover have "si_type (autoDetectCollisionShape unit_sphere_object) = ''trimesh''"
    using autoDetect_many_vertices [OF m, of _ ] by (simp add: len)
  ultimately show ?thesis using len by simp
qed

text \<open>
  Claim C8, amended.  Shape inference classifies a unit cube mesh as a box with
  half-extents \<open>(0.5, 0.5, 0.5)\<close>.  A main mesh of more than 200 vertices is never
  classified as a primitive, whatever its shape (the unit sphere of 32 by 16 segments has
  561): it is a convex hull below 500 vertices and a trimesh from 500 on, so every mesh of
  600 or more vertices is a trimesh.
\<close>

theorem shape_classification:
  "autoDetectCollisionShape unit_cube_object
     = \<lparr> si_type = ''box'', si_size = Some (Vec3 (1 / 2) (1 / 2) (1 / 2)), si_radius = None,
         si_height = None, si_offset = None \<rparr>
   \<and> (\<forall>obj m rest g. meshes_of (obj :: three_object) = m # rest \<and> ngeometry m = Some g
          \<and> 200 < length (positions g) \<longrightarrow>
          si_type (autoDetectCollisionShape obj)
            = (if length (positions g) < 500 then ''convex'' else ''trimesh''))
   \<and> (\<forall>obj m rest g. meshes_of (obj :: three_object) = m # rest \<and> ngeometry m = Some g
          \<and> 600 \<le> length (positions g) \<longrightarrow>
          si_type (autoDetectCollisionShape obj) = ''trimesh'')"
proof -
  have "si_type (autoDetectCollisionShape obj) = ''trimesh''"
    if "meshes_of obj = m # rest" and "ngeometry m = Some g" and "600 \<le> length (positions g)"
    for obj :: three_object and m rest g
    using autoDetect_many_vertices [OF that(1,2)] that(3) by simp
  then show ?thesis
    using unit_cube_is_box autoDetect_many_vertices by blast
qed

theorem shape_classification_witness:
  "meshes_of rock_object
     = [Node ''Rock_1'' True False
          (Some \<lparr> positions = replicate 600 (Vec3 0 0 0), index = None, convexGeo = Some None \<rparr>) []]
   \<and> 600 \<le> length (replicate 600 (Vec3 0 0 0))
   \<and> si_type (autoDetectCollisionShape rock_object) = ''trimesh''
   \<and> si_type (autoDetectCollisionShape unit_cube_object) = ''box''"
proof -
  have m: "meshes_of rock_object
     = [Node ''Rock_1'' True False
          (Some \<lparr> positions = replicate 600 (Vec3 0 0 0), index = None, convexGeo = Some None \<rparr>) []]"
    unfolding rock_object_def by (rule meshes_of_mesh_object) simp
  have g: "ngeometry (Node ''Rock_1'' True False
          (Some \<lparr> positions = replicate 600 (Vec3 0 0 0), index = None, convexGeo = Some None \<rparr>) [])
          = Some \<lparr> positions = replicate 600 (Vec3 0 0 0), index = None, convexGeo = Some None \<rparr>"
    by simp
  have l: "600 \<le> length (positions \<lparr> positions = replicate 600 (Vec3 0 0 0), index = None,
                                      convexGeo = Some None \<rparr>)"
    by simp
  from shape_classification m g l
  have "si_type (autoDetectCollisionShape rock_object) = ''trimesh''" by blast
  moreover from shape_classification
  have "si_type (autoDetectCollisionShape unit_cube_object) = ''box''" by simp
  ultimately show ?thesis using m by simp
qed

section \<open>The character controller\<close>

lemma sync_entry_app [simp]:
  "isPlaying (sync_entry e s) = isPlaying s" "scene (sync_entry e s) = scene s"
  by (simp_all add: sync_entry_def Let_def split: option.splits)

lemma fold_sync_app [simp]:
  "isPlaying (fold sync_entry es s) = isPlaying s" "scene (fold sync_entry es s) = scene s"
  by (induction es arbitrary: s) simp_all

lemma step_app [simp]:
  "isPlaying (step sim dt s) = isPlaying s" "scene (step sim dt s) = scene s"
  by (simp_all add: step_def)

















end
